theory Spec2Isabelle
  imports Main
begin

section \<open>Federated sign-in orchestration (server/ee/services/oauth/oauth.service.ts)\<close>

text \<open>
  A shallow embedding of \<^verbatim>\<open>OauthService\<close>: the domain policy \<^verbatim>\<open>#isValidDomain\<close>, the
  provisioning helpers \<^verbatim>\<open>#findOrCreateUser\<close> and \<^verbatim>\<open>#findAndActivateUser\<close>, the session
  payload and \<^verbatim>\<open>signIn\<close>. An optional JavaScript string is a \<open>string option\<close>
  (\<open>None\<close> for \<^verbatim>\<open>undefined\<close>/\<^verbatim>\<open>null\<close>); an exception is the \<open>Inl\<close> of a sum.
\<close>

subsection \<open>JavaScript strings\<close>

text \<open>
  A string is a list of code units; the model keeps the units below 256. Truthiness of an
  optional string: \<^verbatim>\<open>undefined\<close>, \<^verbatim>\<open>null\<close> and the empty string are falsy.
\<close>

definition truthy :: "string option \<Rightarrow> bool" where
  "truthy s = (case s of None \<Rightarrow> False | Some v \<Rightarrow> v \<noteq> [])"

text \<open>\<^verbatim>\<open>s.lastIndexOf(c)\<close>: the index of the last occurrence, or -1.\<close>

fun lastIndexOf :: "string \<Rightarrow> char \<Rightarrow> int" where
  "lastIndexOf [] c = -1"
| "lastIndexOf (x # xs) c =
     (let r = lastIndexOf xs c
      in if r \<noteq> -1 then r + 1 else if x = c then 0 else -1)"

text \<open>\<^verbatim>\<open>s.substring(i)\<close>: a negative start counts as 0, a start past the end gives "".\<close>

definition substring :: "string \<Rightarrow> int \<Rightarrow> string" where
  "substring s i = drop (nat i) s"

text \<open>\<^verbatim>\<open>s.split(c)\<close> for a one-character separator; \<^verbatim>\<open>"".split(",")\<close> is \<^verbatim>\<open>[""]\<close>.\<close>

fun split :: "string \<Rightarrow> char \<Rightarrow> string list" where
  "split [] c = [[]]"
| "split (x # xs) c =
     (if x = c then [] # split xs c
      else (case split xs c of [] \<Rightarrow> [[x]] | y # ys \<Rightarrow> (x # y) # ys))"

text \<open>
  \<^verbatim>\<open>s.trim()\<close> strips white space and line terminators at both ends; among the code units
  below 256 these are TAB, LF, VT, FF, CR, SPACE and NBSP.
\<close>

definition isWhiteSpace :: "char \<Rightarrow> bool" where
  "isWhiteSpace c = (of_char c \<in> {9, 10, 11, 12, 13, 32, 160 :: nat})"

definition trim :: "string \<Rightarrow> string" where
  "trim s = rev (dropWhile isWhiteSpace (rev (dropWhile isWhiteSpace s)))"

subsection \<open>Domain policy\<close>

text \<open>
  \<^verbatim>\<open>#isValidDomain(email, restrictedDomain)\<close>, lines 35-57, check by check in the
  source's order.
\<close>

definition isValidDomain :: "string option \<Rightarrow> string option \<Rightarrow> bool" where
  "isValidDomain email restrictedDomain =
     (case email of
        None \<Rightarrow> False
      | Some e \<Rightarrow>
          if e = [] then False
          else
            (let domain = substring e (lastIndexOf e (CHR ''@'') + 1)
             in if \<not> truthy restrictedDomain then True
                else if domain = [] then False
                else (case restrictedDomain of
                        None \<Rightarrow> True
                      | Some r \<Rightarrow>
                          if \<not> List.member
                                 (filter (\<lambda>e. e \<noteq> [])
                                    (map (\<lambda>e. if e = [] then e else trim e) (split r (CHR '',''))))
                                 domain
                          then False
                          else True)))"

text \<open>
  The specification's words for the two ingredients: the part of the email after its last
  \<open>@\<close>, and the entries of the comma-separated allow-list, trimmed, empties removed.
\<close>

definition domainAfterLastAt :: "string \<Rightarrow> string" where
  "domainAfterLastAt e = rev (takeWhile (\<lambda>c. c \<noteq> CHR ''@'') (rev e))"

definition allowListEntries :: "string \<Rightarrow> string set" where
  "allowListEntries l = {t. t \<noteq> [] \<and> (\<exists>p \<in> set (split l (CHR '','')). t = trim p)}"

subsection \<open>Entities\<close>

text \<open>
  The entities the service reads and writes (\<^verbatim>\<open>src/entities\<close>, declared elsewhere), with
  the fields this file uses. A \<^verbatim>\<open>DeepPartial<Organization>\<close> may lack its id and name (the
  organization synthesized for instance SSO has neither), so both are optional.
\<close>

datatype error =
    Unauthorized string
  | NotAcceptable string
  | TypeError
  | Thrown string

record user =
  u_id :: string
  u_email :: string
  u_firstName :: "string option"
  u_lastName :: "string option"
  u_status :: string
  u_invitationToken :: "string option"
  u_defaultOrganizationId :: "string option"

record organizationUser =
  ou_id :: string
  ou_userId :: string
  ou_organizationId :: "string option"
  ou_status :: string

record providerConfigs =
  clientId :: "string option"
  clientSecret :: "string option"
  hostName :: "string option"
  wellKnownUrl :: "string option"

record ssoConfigs =
  sc_sso :: "string option"
  sc_enabled :: "bool option"
  sc_configs :: "providerConfigs option"

record organization =
  o_id :: "string option"
  o_name :: "string option"
  o_enableSignUp :: bool
  o_domain :: "string option"
  o_ssoConfigs :: "ssoConfigs list"

text \<open>\<^verbatim>\<open>UserResponse\<close> (\<^verbatim>\<open>./models/user_response\<close>): the normalized identity.\<close>

record userResponse =
  ur_userSSOId :: "string option"
  ur_email :: "string option"
  ur_firstName :: "string option"
  ur_lastName :: "string option"

record ssoResponse =
  sr_token :: string
  sr_organizationId :: "string option"

record JWTPayload =
  jwt_username :: string
  jwt_sub :: string
  jwt_organizationId :: "string option"
  jwt_isSSOLogin :: bool

text \<open>The object \<^verbatim>\<open>#generateLoginResultPayload\<close> returns, keys decamelized.\<close>

record loginResult =
  lr_id :: string
  auth_token :: string
  lr_email :: string
  first_name :: "string option"
  last_name :: "string option"
  organization_id :: "string option"
  organization_name :: "string option"
  super_admin :: bool
  admin :: bool
  group_permissions :: "string list"
  app_group_permissions :: "string list"

text \<open>
  The store: the three tables, and the group rows a user is created with. Rows are kept
  in insertion order.
\<close>

record db =
  users :: "user list"
  organizations :: "organization list"
  organizationUsers :: "organizationUser list"
  userGroups :: "(string \<times> string option \<times> string) list"

subsection \<open>Collaborators taken as parameters\<close>

text \<open>
  Configuration, the license, the identity providers, the token signer, the id
  generator and the read-only queries of the other services are not part of this file;
  \<open>env\<close> holds them as functions, and every theorem below holds for all of them.
  A query reads the store it is given. A provider either throws or returns an identity.
\<close>

record env =
  configGet :: "string \<Rightarrow> string option"
  licenseOidc :: bool
  getSettings :: "string \<Rightarrow> string option"
  googleSignIn :: "string \<Rightarrow> providerConfigs option \<Rightarrow> error + userResponse"
  gitSignIn :: "string \<Rightarrow> providerConfigs option \<Rightarrow> error + userResponse"
  oidcSignIn ::
    "string \<Rightarrow> providerConfigs option \<Rightarrow> string option \<Rightarrow> string option \<Rightarrow> error + userResponse"
  getConfigs :: "db \<Rightarrow> string option \<Rightarrow> (ssoConfigs \<times> organization option) option"
  fetchOrganizationDetails :: "db \<Rightarrow> string option \<Rightarrow> organization option"
  findOrganizationWithLoginSupport :: "db \<Rightarrow> user \<Rightarrow> string \<Rightarrow> organization list"
  getSingleOrganization :: "db \<Rightarrow> organization option"
  validateLicense :: "db \<Rightarrow> error option"
  isSuperAdmin :: "user option \<Rightarrow> bool"
  hasGroup :: "db \<Rightarrow> user \<Rightarrow> string option \<Rightarrow> string \<Rightarrow> bool"
  groupPermissions :: "db \<Rightarrow> user \<Rightarrow> string option \<Rightarrow> string list"
  appGroupPermissions :: "db \<Rightarrow> user \<Rightarrow> string option \<Rightarrow> string list"
  jwtSign :: "JWTPayload \<Rightarrow> string"
  uuid :: "db \<Rightarrow> string"

subsection \<open>Store operations\<close>

text \<open>
  Modelled from the spec: \<^verbatim>\<open>usersService.findByEmail(email, organizationId?, status?)\<close>,
  defined in \<^verbatim>\<open>@services/users.service\<close>. Without an organization it is the user with that
  email. With one it is "the user by email scoped to that organization among statuses":
  the user comes with the memberships that link it to the organization in one of the
  statuses, and is found only when there is such a membership.
\<close>

definition usersService_findByEmail ::
  "string \<Rightarrow> string option \<Rightarrow> string list option \<Rightarrow> db \<Rightarrow> (user \<times> organizationUser list) option"
where
  "usersService_findByEmail email organizationId status d =
     (if \<not> truthy organizationId
      then map_option (\<lambda>u. (u, [])) (find (\<lambda>u. u_email u = email) (users d))
      else find (\<lambda>(u, ous). ous \<noteq> [])
             (map (\<lambda>u. (u, filter (\<lambda>ou. ou_userId ou = u_id u
                                      \<and> ou_organizationId ou = organizationId
                                      \<and> (case status of None \<Rightarrow> True
                                          | Some l \<Rightarrow> ou_status ou \<in> set l))
                              (organizationUsers d)))
                  (filter (\<lambda>u. u_email u = email) (users d))))"

text \<open>
  Modelled from the spec: \<^verbatim>\<open>usersService.getCount()\<close>, the number of users "in the
  entire system".
\<close>

definition usersService_getCount :: "db \<Rightarrow> nat" where
  "usersService_getCount d = length (users d)"

text \<open>
  Modelled from the spec: \<^verbatim>\<open>usersService.create(params, organizationId, groups, ...)\<close>:
  "create the user with default groups". The new row takes a fresh id, the given names
  and email, the organization as its default one, and one group row per group. The
  specification does not say with which status and token a user starts; the model
  takes an active user with no invitation token.
\<close>

definition usersService_create ::
  "env \<Rightarrow> string option \<times> string option \<times> string \<Rightarrow> string option \<Rightarrow> string list \<Rightarrow> db \<Rightarrow> user \<times> db"
where
  "usersService_create env params organizationId groups tx =
     (case params of (firstName, lastName, email) \<Rightarrow>
        (let u = \<lparr>u_id = uuid env tx, u_email = email, u_firstName = firstName,
                  u_lastName = lastName, u_status = ''active'', u_invitationToken = None,
                  u_defaultOrganizationId = organizationId\<rparr>
         in (u, tx\<lparr>users := users tx @ [u],
                   userGroups := userGroups tx @ map (\<lambda>g. (u_id u, organizationId, g)) groups\<rparr>)))"

text \<open>
  Modelled from the spec: \<^verbatim>\<open>usersService.findOrCreateByEmail(params, organizationId, manager)\<close>,
  defined in \<^verbatim>\<open>@services/users.service\<close>: "if none, create the user (if new) and create a
  new membership". The user with that email is returned, created first when there is
  none. \<^verbatim>\<open>newUserCreated\<close> is what lets the caller create the membership: it is true
  whenever the user is not yet linked to the organization, and false for a user who is
  (there is "exactly one membership per (user, organization) pair"). The specification
  names no group for a user created here.
\<close>

definition usersService_findOrCreateByEmail ::
  "env \<Rightarrow> string option \<times> string option \<times> string \<Rightarrow> string option \<Rightarrow> db \<Rightarrow> user \<times> bool \<times> db"
where
  "usersService_findOrCreateByEmail env params organizationId tx =
     (case params of (firstName, lastName, email) \<Rightarrow>
        (case find (\<lambda>u. u_email u = email) (users tx) of
           Some u \<Rightarrow>
             if list_ex (\<lambda>ou. ou_userId ou = u_id u \<and> ou_organizationId ou = organizationId)
                  (organizationUsers tx)
             then (u, False, tx)
             else (u, True, tx)
         | None \<Rightarrow>
             (case usersService_create env params organizationId [] tx of
                (u, tx') \<Rightarrow> (u, True, tx'))))"

text \<open>
  Modelled from the spec: \<^verbatim>\<open>usersService.updateUser(id, fields, manager)\<close>: the fields of
  the user with that id are overwritten.
\<close>

definition usersService_updateUser :: "string \<Rightarrow> (user \<Rightarrow> user) \<Rightarrow> db \<Rightarrow> db" where
  "usersService_updateUser i upd tx =
     tx\<lparr>users := map (\<lambda>u. if u_id u = i then upd u else u) (users tx)\<rparr>"

text \<open>
  Modelled from the spec: \<^verbatim>\<open>organizationService.create(name, user, manager)\<close>: "create a
  new Untitled workspace organization", "create a new workspace for the user". The
  specification names no other row written here, and no sign-up or domain policy of the
  new organization; the model takes sign-up disabled and no allow-list.
\<close>

definition organizationService_create ::
  "env \<Rightarrow> string \<Rightarrow> user option \<Rightarrow> db \<Rightarrow> organization \<times> db"
where
  "organizationService_create env name owner tx =
     (let og = \<lparr>o_id = Some (uuid env tx), o_name = Some name, o_enableSignUp = False,
                 o_domain = None, o_ssoConfigs = []\<rparr>
      in (og, tx\<lparr>organizations := organizations tx @ [og]\<rparr>))"

text \<open>
  Modelled from the spec: \<^verbatim>\<open>organizationUsersService.create(user, organization, false, manager)\<close>:
  the membership of the user in the organization, which with \<^verbatim>\<open>false\<close> "starts inactive"
  (\<open>active=false\<close> at creation).
\<close>

definition organizationUsersService_create ::
  "env \<Rightarrow> user \<Rightarrow> organization \<Rightarrow> bool \<Rightarrow> db \<Rightarrow> db"
where
  "organizationUsersService_create env u og active tx =
     tx\<lparr>organizationUsers := organizationUsers tx @
          [\<lparr>ou_id = uuid env tx, ou_userId = u_id u, ou_organizationId = o_id og,
            ou_status = (if active then ''active'' else ''invited'')\<rparr>]\<rparr>"

text \<open>
  Modelled from the spec: \<^verbatim>\<open>organizationUsersService.activate(id, manager)\<close>: "activate
  it". Both helpers pass the id of an \<^verbatim>\<open>OrganizationUser\<close>, so the argument is a membership
  id: the membership with that id becomes active.
\<close>

definition organizationUsersService_activate :: "string option \<Rightarrow> db \<Rightarrow> db" where
  "organizationUsersService_activate i tx =
     tx\<lparr>organizationUsers :=
          map (\<lambda>ou. if Some (ou_id ou) = i then ou\<lparr>ou_status := ''active''\<rparr> else ou)
            (organizationUsers tx)\<rparr>"

text \<open>\<^verbatim>\<open>manager.findOne(Organization, { id })\<close>: the organization with that id.\<close>

definition findOne_Organization :: "string option \<Rightarrow> db \<Rightarrow> organization option" where
  "findOne_Organization i tx = find (\<lambda>og. o_id og = i) (organizations tx)"

text \<open>
  Modelled from the spec: \<^verbatim>\<open>dbTransactionWrap(operation)\<close> of \<^verbatim>\<open>src/helpers/utils.helper\<close>:
  "one atomic unit of work; any failure inside aborts all writes made within it". The
  operation works on the transaction's copy of the store; what it returns is committed,
  what it throws leaves the store as it was.
\<close>

definition dbTransactionWrap :: "(db \<Rightarrow> error + ('a \<times> db)) \<Rightarrow> db \<Rightarrow> (error + 'a) \<times> db" where
  "dbTransactionWrap operation d =
     (case operation d of
        Inl e \<Rightarrow> (Inl e, d)
      | Inr (r, tx) \<Rightarrow> (Inr r, tx))"

subsection \<open>Provisioning helpers\<close>

text \<open>
  \<^verbatim>\<open>#findOrCreateUser({ firstName, lastName, email }, organization, manager)\<close>, lines 59-85.
  The lookup of line 64 is given no manager: it reads the committed store \<open>d\<close>, while the
  writes go to the transaction \<open>tx\<close>. \<^verbatim>\<open>signIn\<close> calls it with a non-empty email.
\<close>

definition findOrCreateUser ::
  "env \<Rightarrow> string option \<times> string option \<times> string \<Rightarrow> organization \<Rightarrow> db \<Rightarrow> db \<Rightarrow> user \<times> db"
where
  "findOrCreateUser env params og d tx =
     (case params of (firstName, lastName, email) \<Rightarrow>
        (let existingUser =
               usersService_findByEmail email (o_id og) (Some [''active'', ''invited'']) d;
             organizationUser =
               (case existingUser of
                  None \<Rightarrow> None
                | Some (u, ous) \<Rightarrow> (case ous of [] \<Rightarrow> None | ou # _ \<Rightarrow> Some (u, ou)))
         in case organizationUser of
              None \<Rightarrow>
                (case usersService_findOrCreateByEmail env (firstName, lastName, email) (o_id og) tx of
                   (u, newUserCreated, tx') \<Rightarrow>
                     if newUserCreated
                     then (u, organizationUsersService_create env u og False tx')
                     else (u, tx'))
            | Some (u, ou) \<Rightarrow>
                if ou_status ou \<noteq> ''active''
                then (u, organizationUsersService_activate (Some (ou_id ou)) tx)
                else (u, tx)))"

text \<open>\<^verbatim>\<open>#findAndActivateUser(email, organizationId, manager)\<close>, lines 87-101.\<close>

definition findAndActivateUser ::
  "string \<Rightarrow> string option \<Rightarrow> db \<Rightarrow> db \<Rightarrow> error + (user \<times> db)"
where
  "findAndActivateUser email orgId d tx =
     (case usersService_findByEmail email orgId (Some [''active'', ''invited'']) d of
        None \<Rightarrow> Inl (Unauthorized ''User does not exist in the workspace'')
      | Some (u, ous) \<Rightarrow>
          (case ous of
             [] \<Rightarrow> Inl (Unauthorized ''User does not exist in the workspace'')
           | ou # _ \<Rightarrow>
               if ou_status ou \<noteq> ''active''
               then Inr (u, organizationUsersService_activate (Some (ou_id ou)) tx)
               else Inr (u, tx)))"

text \<open>
  \<^verbatim>\<open>#generateLoginResultPayload(user, organization, isInstanceSSO)\<close>, lines 103-129. The
  group queries see the user with \<^verbatim>\<open>organizationId\<close> set to the organization's id.
\<close>

definition generateLoginResultPayload ::
  "env \<Rightarrow> db \<Rightarrow> user \<Rightarrow> organization \<Rightarrow> bool \<Rightarrow> loginResult"
where
  "generateLoginResultPayload env d u og isInstanceSSO =
     (let payload = \<lparr>jwt_username = u_id u, jwt_sub = u_email u,
                      jwt_organizationId = o_id og, jwt_isSSOLogin = isInstanceSSO\<rparr>
      in \<lparr>lr_id = u_id u,
          auth_token = jwtSign env payload,
          lr_email = u_email u,
          first_name = u_firstName u,
          last_name = u_lastName u,
          organization_id = o_id og,
          organization_name = o_name og,
          super_admin = isSuperAdmin env (Some u),
          admin = hasGroup env d u (o_id og) ''admin'',
          group_permissions = groupPermissions env d u (o_id og),
          app_group_permissions = appGroupPermissions env d u (o_id og)\<rparr>)"

subsection \<open>Instance SSO configuration\<close>

text \<open>
  \<^verbatim>\<open>#getSSOConfigs(ssoType)\<close>, lines 131-159: \<^verbatim>\<open>enabled\<close> and \<^verbatim>\<open>configs\<close> of the provider, or
  \<^verbatim>\<open>undefined\<close> for any other tag.
\<close>

definition getSSOConfigs :: "env \<Rightarrow> string option \<Rightarrow> (bool \<times> providerConfigs) option" where
  "getSSOConfigs env ssoType =
     (if ssoType = Some ''google'' then
        Some (truthy (configGet env ''SSO_GOOGLE_OAUTH2_CLIENT_ID''),
              \<lparr>clientId = configGet env ''SSO_GOOGLE_OAUTH2_CLIENT_ID'',
               clientSecret = None, hostName = None, wellKnownUrl = None\<rparr>)
      else if ssoType = Some ''git'' then
        Some (truthy (configGet env ''SSO_GIT_OAUTH2_CLIENT_ID''),
              \<lparr>clientId = configGet env ''SSO_GIT_OAUTH2_CLIENT_ID'',
               clientSecret = configGet env ''SSO_GIT_OAUTH2_CLIENT_SECRET'',
               hostName = configGet env ''SSO_GIT_OAUTH2_HOST'', wellKnownUrl = None\<rparr>)
      else if ssoType = Some ''openid'' then
        Some (truthy (configGet env ''SSO_OPENID_CLIENT_ID''),
              \<lparr>clientId = configGet env ''SSO_OPENID_CLIENT_ID'',
               clientSecret = configGet env ''SSO_OPENID_CLIENT_SECRET'',
               hostName = None,
               wellKnownUrl = configGet env ''SSO_OPENID_WELL_KNOWN_URL''\<rparr>)
      else None)"

text \<open>
  \<^verbatim>\<open>#getInstanceSSOConfigs(ssoType)\<close>, lines 161-170: the synthesized configuration and
  its \<^verbatim>\<open>organization\<close>, which has the instance's sign-up and domain policy and no id.
\<close>

definition getInstanceSSOConfigs :: "env \<Rightarrow> string option \<Rightarrow> ssoConfigs \<times> organization" where
  "getInstanceSSOConfigs env ssoType =
     (\<lparr>sc_sso = ssoType,
       sc_enabled = map_option fst (getSSOConfigs env ssoType),
       sc_configs = map_option snd (getSSOConfigs env ssoType)\<rparr>,
      \<lparr>o_id = None, o_name = None,
       o_enableSignUp = (configGet env ''SSO_DISABLE_SIGNUPS'' \<noteq> Some ''true''),
       o_domain = configGet env ''SSO_ACCEPTED_DOMAINS'',
       o_ssoConfigs = []\<rparr>)"

subsection \<open>The stages of signIn\<close>

text \<open>
  Lines 183-197: the three resolution modes, in the order of the \<^verbatim>\<open>if\<close> chain. The result
  is the pair \<^verbatim>\<open>(organization, ssoConfigs)\<close>, either of which may be \<^verbatim>\<open>undefined\<close>.
\<close>

definition signIn_resolveModes ::
  "env \<Rightarrow> string option \<Rightarrow> string option \<Rightarrow> string option \<Rightarrow> bool \<Rightarrow> db
   \<Rightarrow> error + (organization option \<times> ssoConfigs option)"
where
  "signIn_resolveModes env orgId configId ssoType isSingleOrganization d =
     (if truthy configId then
        (case getConfigs env d configId of
           None \<Rightarrow> Inr (None, None)
         | Some (conf, og) \<Rightarrow> Inr (og, Some conf))
      else if \<not> isSingleOrganization \<and> truthy ssoType \<and> truthy orgId then
        (case fetchOrganizationDetails env d orgId of
           None \<Rightarrow> Inr (None, None)
         | Some og \<Rightarrow> Inr (Some og, find (\<lambda>conf. sc_sso conf = ssoType) (o_ssoConfigs og)))
      else if \<not> isSingleOrganization \<and> truthy ssoType then
        (case getInstanceSSOConfigs env ssoType of
           (conf, og) \<Rightarrow> Inr (Some og, Some conf))
      else Inl (Unauthorized []))"

text \<open>Lines 183-202: the modes, then the check that both were obtained.\<close>

definition signIn_resolve ::
  "env \<Rightarrow> string option \<Rightarrow> string option \<Rightarrow> string option \<Rightarrow> bool \<Rightarrow> db
   \<Rightarrow> error + (organization \<times> ssoConfigs)"
where
  "signIn_resolve env orgId configId ssoType isSingleOrganization d =
     (case signIn_resolveModes env orgId configId ssoType isSingleOrganization d of
        Inl e \<Rightarrow> Inl e
      | Inr (og, conf) \<Rightarrow>
          (case og of
             None \<Rightarrow> Inl (Unauthorized [])
           | Some og' \<Rightarrow>
               (case conf of
                  None \<Rightarrow> Inl (Unauthorized [])
                | Some conf' \<Rightarrow> Inr (og', conf'))))"

text \<open>
  Lines 207-230: the \<^verbatim>\<open>switch\<close> over the provider tag. \<^verbatim>\<open>userResponse\<close> stays \<^verbatim>\<open>undefined\<close>
  (\<open>None\<close>) in the \<^verbatim>\<open>default\<close> case. Reading \<^verbatim>\<open>cookies['oidc_code_verifier']\<close> of absent
  cookies is a \<^verbatim>\<open>TypeError\<close>.
\<close>

definition signIn_exchange ::
  "env \<Rightarrow> ssoConfigs \<Rightarrow> string \<Rightarrow> string option \<Rightarrow> (string \<Rightarrow> string option) option
   \<Rightarrow> error + userResponse option"
where
  "signIn_exchange env conf token configId cookies =
     (let sso = sc_sso conf; configs = sc_configs conf
      in if sso = Some ''google'' then
           (case googleSignIn env token configs of Inl e \<Rightarrow> Inl e | Inr r \<Rightarrow> Inr (Some r))
         else if sso = Some ''git'' then
           (case gitSignIn env token configs of Inl e \<Rightarrow> Inl e | Inr r \<Rightarrow> Inr (Some r))
         else if sso = Some ''openid'' then
           (if \<not> licenseOidc env then Inl (Unauthorized ''OIDC login disabled'')
            else (case cookies of
                    None \<Rightarrow> Inl TypeError
                  | Some c \<Rightarrow>
                      (case oidcSignIn env token configs configId (c ''oidc_code_verifier'') of
                         Inl e \<Rightarrow> Inl e
                       | Inr r \<Rightarrow> Inr (Some r))))
         else Inr None)"

text \<open>
  Lines 232-254: the identity must have a subject id and an email (reading a field of an
  \<^verbatim>\<open>undefined\<close> identity is a \<^verbatim>\<open>TypeError\<close>); an archived user is refused; the domain
  policy; the default first name; \<^verbatim>\<open>allowPersonalWorkspace\<close>. The result is the identity,
  its email, \<^verbatim>\<open>userDetails\<close> and \<^verbatim>\<open>allowPersonalWorkspace\<close>.
\<close>

definition signIn_eligibility ::
  "env \<Rightarrow> organization \<Rightarrow> userResponse option \<Rightarrow> db
   \<Rightarrow> error + (userResponse \<times> string \<times> user option \<times> bool)"
where
  "signIn_eligibility env og userResponse d =
     (case userResponse of
        None \<Rightarrow> Inl TypeError
      | Some ur \<Rightarrow>
          (case ur_email ur of
             None \<Rightarrow> Inl (Unauthorized ''Invalid credentials'')
           | Some email \<Rightarrow>
               if \<not> (truthy (ur_userSSOId ur) \<and> email \<noteq> [])
               then Inl (Unauthorized ''Invalid credentials'')
               else
                 (let userDetails = map_option fst (usersService_findByEmail email None None d)
                  in if (case userDetails of None \<Rightarrow> False | Some u \<Rightarrow> u_status u = ''archived'')
                     then Inl (NotAcceptable
                       ''User has been removed from the system, please contact the administrator'')
                     else if \<not> isSuperAdmin env userDetails
                             \<and> \<not> isValidDomain (ur_email ur) (o_domain og)
                     then Inl (Unauthorized
                       ''You cannot sign in using the mail id - Domain verification failed'')
                     else
                       (let ur' = (if \<not> truthy (ur_firstName ur)
                                   then ur\<lparr>ur_firstName :=
                                          (case split email (CHR ''@'') of
                                             [] \<Rightarrow> None
                                           | x # _ \<Rightarrow> Some x)\<rparr>
                                   else ur);
                            allowPersonalWorkspace =
                              (isSuperAdmin env userDetails
                               \<or> getSettings env ''ALLOW_PERSONAL_WORKSPACE'' = Some ''true''
                               \<or> usersService_getCount d = 0)
                        in Inr (ur', email, userDetails, allowPersonalWorkspace)))))"

text \<open>
  Lines 297-306: the candidate organizations. The two queries of the services are given
  no manager and read the committed store \<open>d\<close>; \<^verbatim>\<open>manager.findOne\<close> reads the transaction.
  A super-admin for whom neither query finds an organization gets the list
  \<^verbatim>\<open>[undefined]\<close>, and the \<^verbatim>\<open>find\<close> of line 308 then reads \<^verbatim>\<open>id\<close> of \<^verbatim>\<open>undefined\<close>.
\<close>

definition signIn_organizationList :: "env \<Rightarrow> db \<Rightarrow> user \<Rightarrow> db \<Rightarrow> error + organization list" where
  "signIn_organizationList env d u tx =
     (if \<not> isSuperAdmin env (Some u)
      then Inr (findOrganizationWithLoginSupport env d u ''sso'')
      else (case (case findOne_Organization (u_defaultOrganizationId u) tx of
                    Some og \<Rightarrow> Some og
                  | None \<Rightarrow> getSingleOrganization env d) of
              None \<Rightarrow> Inl TypeError
            | Some superAdminOrganization \<Rightarrow> Inr [superAdminOrganization]))"

text \<open>Lines 295-323: the organization to be loaded for an existing user.\<close>

definition signIn_selectOrganization ::
  "env \<Rightarrow> db \<Rightarrow> bool \<Rightarrow> user \<Rightarrow> db \<Rightarrow> error + (organization \<times> db)"
where
  "signIn_selectOrganization env d allowPersonalWorkspace u tx =
     (case signIn_organizationList env d u tx of
        Inl e \<Rightarrow> Inl e
      | Inr organizationList \<Rightarrow>
          (case find (\<lambda>og. o_id og = u_defaultOrganizationId u) organizationList of
             Some defaultOrgDetails \<Rightarrow> Inr (defaultOrgDetails, tx)
           | None \<Rightarrow>
               (case organizationList of
                  og # _ \<Rightarrow> Inr (og, tx)
                | [] \<Rightarrow>
                    if allowPersonalWorkspace
                    then Inr (organizationService_create env ''Untitled workspace'' (Some u) tx)
                    else Inl (Unauthorized ''User not included in any workspace''))))"

text \<open>
  Lines 261-323: login from the main login page. A user created here comes with its new
  organization, so the selection of lines 295-323 is skipped for it.
\<close>

definition signIn_commonPage ::
  "env \<Rightarrow> db \<Rightarrow> bool \<Rightarrow> bool \<Rightarrow> userResponse \<Rightarrow> string \<Rightarrow> user option \<Rightarrow> db
   \<Rightarrow> error + ((user \<times> organization) \<times> db)"
where
  "signIn_commonPage env d enableSignUp allowPersonalWorkspace ur email userDetails tx =
     (case userDetails of
        None \<Rightarrow>
          if enableSignUp \<and> allowPersonalWorkspace then
            (case organizationService_create env ''Untitled workspace'' None tx of
               (defaultOrganization, tx1) \<Rightarrow>
                 (case usersService_create env (ur_firstName ur, ur_lastName ur, email)
                         (o_id defaultOrganization) [''all_users'', ''admin''] tx1 of
                    (u, tx2) \<Rightarrow>
                      Inr ((u, defaultOrganization),
                           organizationUsersService_create env u defaultOrganization False tx2)))
          else Inl (Unauthorized ''User does not exist in the workspace'')
      | Some u \<Rightarrow>
          (let tx1 = (if truthy (u_invitationToken u)
                      then organizationUsersService_activate (u_defaultOrganizationId u)
                             (usersService_updateUser (u_id u)
                                (\<lambda>r. r\<lparr>u_invitationToken := None\<rparr>) tx)
                      else tx)
           in case signIn_selectOrganization env d allowPersonalWorkspace u tx1 of
                Inl e \<Rightarrow> Inl e
              | Inr (og, tx2) \<Rightarrow> Inr ((u, og), tx2)))"

text \<open>
  Lines 325-335: direct login to an organization. Both helpers return a user, so the
  check of line 330 never throws.
\<close>

definition signIn_direct ::
  "env \<Rightarrow> db \<Rightarrow> organization \<Rightarrow> userResponse \<Rightarrow> string \<Rightarrow> db
   \<Rightarrow> error + ((user \<times> organization) \<times> db)"
where
  "signIn_direct env d og ur email tx =
     (case (if \<not> o_enableSignUp og
            then findAndActivateUser email (o_id og) d tx
            else Inr (findOrCreateUser env (ur_firstName ur, ur_lastName ur, email) og d tx)) of
        Inl e \<Rightarrow> Inl e
      | Inr (u, tx') \<Rightarrow> Inr ((u, og), tx'))"

text \<open>Lines 260-335: the writes of the transaction, before the license check.\<close>

definition signIn_provision ::
  "env \<Rightarrow> db \<Rightarrow> bool \<Rightarrow> bool \<Rightarrow> string option \<Rightarrow> organization \<Rightarrow> bool \<Rightarrow> userResponse
   \<Rightarrow> string \<Rightarrow> user option \<Rightarrow> db \<Rightarrow> error + ((user \<times> organization) \<times> db)"
where
  "signIn_provision env d isSingleOrganization isInstanceSSOLogin orgId og
       allowPersonalWorkspace ur email userDetails tx =
     (if \<not> isSingleOrganization \<and> isInstanceSSOLogin \<and> \<not> truthy orgId
      then signIn_commonPage env d (o_enableSignUp og) allowPersonalWorkspace ur email
             userDetails tx
      else signIn_direct env d og ur email tx)"

text \<open>
  Lines 259-337: the operation handed to \<^verbatim>\<open>dbTransactionWrap\<close>: the provisioning, then
  \<^verbatim>\<open>usersService.validateLicense(manager)\<close> on the transaction.
\<close>

definition signIn_transaction ::
  "env \<Rightarrow> db \<Rightarrow> bool \<Rightarrow> bool \<Rightarrow> string option \<Rightarrow> organization \<Rightarrow> bool \<Rightarrow> userResponse
   \<Rightarrow> string \<Rightarrow> user option \<Rightarrow> db \<Rightarrow> error + ((user \<times> organization) \<times> db)"
where
  "signIn_transaction env d isSingleOrganization isInstanceSSOLogin orgId og
       allowPersonalWorkspace ur email userDetails tx =
     (case signIn_provision env d isSingleOrganization isInstanceSSOLogin orgId og
             allowPersonalWorkspace ur email userDetails tx of
        Inl e \<Rightarrow> Inl e
      | Inr (r, tx') \<Rightarrow>
          (case validateLicense env tx' of
             Some e \<Rightarrow> Inl e
           | None \<Rightarrow> Inr (r, tx')))"

subsection \<open>signIn\<close>

text \<open>Line 181 and line 257: the two flags of \<^verbatim>\<open>signIn\<close>.\<close>

definition isSingleOrganization :: "env \<Rightarrow> bool" where
  "isSingleOrganization env = (configGet env ''DISABLE_MULTI_WORKSPACE'' = Some ''true'')"

definition isInstanceSSOLogin :: "string option \<Rightarrow> string option \<Rightarrow> bool" where
  "isInstanceSSOLogin configId ssoType = (\<not> truthy configId \<and> truthy ssoType)"

text \<open>
  Lines 203-339: \<^verbatim>\<open>signIn\<close> from the point where the organization and its SSO
  configuration are known: the identity exchange, the eligibility checks, the
  transaction and the session payload.
\<close>

definition signIn_resolved ::
  "env \<Rightarrow> organization \<Rightarrow> ssoConfigs \<Rightarrow> ssoResponse \<Rightarrow> string option \<Rightarrow> string option
   \<Rightarrow> (string \<Rightarrow> string option) option \<Rightarrow> db \<Rightarrow> (error + loginResult) \<times> db"
where
  "signIn_resolved env og conf ssoResponse configId ssoType cookies d =
     (case signIn_exchange env conf (sr_token ssoResponse) configId cookies of
        Inl e \<Rightarrow> (Inl e, d)
      | Inr userResponse \<Rightarrow>
          (case signIn_eligibility env og userResponse d of
             Inl e \<Rightarrow> (Inl e, d)
           | Inr (ur, email, userDetails, allowPersonalWorkspace) \<Rightarrow>
               (case dbTransactionWrap
                       (signIn_transaction env d (isSingleOrganization env)
                          (isInstanceSSOLogin configId ssoType)
                          (sr_organizationId ssoResponse) og
                          allowPersonalWorkspace ur email userDetails) d of
                  (Inl e, d') \<Rightarrow> (Inl e, d')
                | (Inr (u, organizationDetails), d') \<Rightarrow>
                    (Inr (generateLoginResultPayload env d' u organizationDetails
                            (isInstanceSSOLogin configId ssoType)), d'))))"

text \<open>
  \<^verbatim>\<open>signIn(ssoResponse, configId, ssoType, cookies)\<close>, lines 172-340: the outcome and the
  store after the call. The tenant is resolved first (lines 183-202); a failure there
  ends the call.
\<close>

definition signIn ::
  "env \<Rightarrow> ssoResponse \<Rightarrow> string option \<Rightarrow> string option \<Rightarrow> (string \<Rightarrow> string option) option
   \<Rightarrow> db \<Rightarrow> (error + loginResult) \<times> db"
where
  "signIn env ssoResponse configId ssoType cookies d =
     (case signIn_resolve env (sr_organizationId ssoResponse) configId ssoType
             (isSingleOrganization env) d of
        Inl e \<Rightarrow> (Inl e, d)
      | Inr (og, conf) \<Rightarrow> signIn_resolved env og conf ssoResponse configId ssoType cookies d)"

subsection \<open>Notions used in the statements\<close>

text \<open>
  No membership in status active or invited links a user with that email to the
  organization.
\<close>

definition noMembership :: "db \<Rightarrow> string \<Rightarrow> string option \<Rightarrow> bool" where
  "noMembership d email orgId =
     (\<forall>u \<in> set (users d). u_email u = email \<longrightarrow>
        (\<forall>ou \<in> set (organizationUsers d).
           ou_userId ou = u_id u \<and> ou_organizationId ou = orgId
             \<longrightarrow> ou_status ou \<noteq> ''active'' \<and> ou_status ou \<noteq> ''invited''))"

text \<open>The user with that email is archived.\<close>

definition archivedUser :: "db \<Rightarrow> string \<Rightarrow> bool" where
  "archivedUser d email =
     (case find (\<lambda>u. u_email u = email) (users d) of
        None \<Rightarrow> False
      | Some u \<Rightarrow> u_status u = ''archived'')"

text \<open>
  The organization a candidate list yields for a user: the user's default organization
  if it is among the candidates, else the first candidate.
\<close>

definition preferredOrganization :: "user \<Rightarrow> organization list \<Rightarrow> organization option" where
  "preferredOrganization u l =
     (case find (\<lambda>og. o_id og = u_defaultOrganizationId u) l of
        Some og \<Rightarrow> Some og
      | None \<Rightarrow> (case l of [] \<Rightarrow> None | og # _ \<Rightarrow> Some og))"

subsection \<open>A sample deployment\<close>

text \<open>
  A concrete environment and store on which the theorems below are instantiated: two
  organizations with Google SSO, a super-admin, an invited user, an archived user, an
  active member, a provider that accepts every token and reports the token as the email,
  and a license of four seats.
\<close>

definition googleConf :: ssoConfigs where
  "googleConf =
     \<lparr>sc_sso = Some ''google'', sc_enabled = Some True,
      sc_configs = Some \<lparr>clientId = Some ''client-1'', clientSecret = None,
                         hostName = None, wellKnownUrl = None\<rparr>\<rparr>"

definition formConf :: ssoConfigs where
  "formConf = \<lparr>sc_sso = Some ''form'', sc_enabled = Some True, sc_configs = None\<rparr>"

definition orgA :: organization where
  "orgA = \<lparr>o_id = Some ''org-a'', o_name = Some ''Acme'', o_enableSignUp = False,
            o_domain = Some ''acme.com'', o_ssoConfigs = [googleConf]\<rparr>"

definition orgB :: organization where
  "orgB = \<lparr>o_id = Some ''org-b'', o_name = Some ''Beta'', o_enableSignUp = True,
            o_domain = None, o_ssoConfigs = [googleConf]\<rparr>"

definition sampleConfigs :: "(string \<times> ssoConfigs \<times> string) list" where
  "sampleConfigs =
     [(''sso-org-a'', googleConf, ''org-a''),
      (''sso-org-b'', googleConf, ''org-b''),
      (''form-org-a'', formConf, ''org-a'')]"

definition sampleEnv :: env where
  "sampleEnv =
     \<lparr>configGet = (\<lambda>k. None),
      licenseOidc = True,
      getSettings = (\<lambda>k. if k = ''ALLOW_PERSONAL_WORKSPACE'' then Some ''true'' else None),
      googleSignIn = (\<lambda>token configs.
        Inr \<lparr>ur_userSSOId = Some (''sub-'' @ token), ur_email = Some token,
             ur_firstName = None, ur_lastName = None\<rparr>),
      gitSignIn = (\<lambda>token configs. Inl (Unauthorized ''Git login failed'')),
      oidcSignIn = (\<lambda>token configs configId codeVerifier. Inl (Unauthorized ''OIDC login failed'')),
      getConfigs = (\<lambda>d configId.
        case find (\<lambda>(i, conf, o'). Some i = configId) sampleConfigs of
          None \<Rightarrow> None
        | Some (i, conf, o') \<Rightarrow> Some (conf, find (\<lambda>og. o_id og = Some o') (organizations d))),
      fetchOrganizationDetails = (\<lambda>d i. find (\<lambda>og. o_id og = i) (organizations d)),
      findOrganizationWithLoginSupport = (\<lambda>d u loginType.
        filter (\<lambda>og. o_ssoConfigs og \<noteq> [] \<and>
                  list_ex (\<lambda>ou. ou_userId ou = u_id u \<and> ou_organizationId ou = o_id og
                                 \<and> ou_status ou = ''active'') (organizationUsers d))
          (organizations d)),
      getSingleOrganization = (\<lambda>d. case organizations d of [] \<Rightarrow> None | og # _ \<Rightarrow> Some og),
      validateLicense = (\<lambda>d. if 4 < length (users d)
                              then Some (Thrown ''License violation - Maximum user limit reached'')
                              else None),
      isSuperAdmin = (\<lambda>u. case u of None \<Rightarrow> False | Some r \<Rightarrow> u_email r = ''root@example.com''),
      hasGroup = (\<lambda>d u i g. List.member (userGroups d) (u_id u, i, g)),
      groupPermissions = (\<lambda>d u i. []),
      appGroupPermissions = (\<lambda>d u i. []),
      jwtSign = (\<lambda>p. jwt_username p @ ''.'' @ jwt_sub p),
      uuid = (\<lambda>d. ''id-'' @ replicate (length (users d) + length (organizations d)
                                          + length (organizationUsers d)) (CHR ''n''))\<rparr>"

definition root :: user where
  "root = \<lparr>u_id = ''u-root'', u_email = ''root@example.com'', u_firstName = Some ''Root'',
            u_lastName = None, u_status = ''active'', u_invitationToken = None,
            u_defaultOrganizationId = Some ''org-a''\<rparr>"

definition carol :: user where
  "carol = \<lparr>u_id = ''u-carol'', u_email = ''carol@acme.com'', u_firstName = Some ''Carol'',
             u_lastName = None, u_status = ''invited'', u_invitationToken = Some ''tok-1'',
             u_defaultOrganizationId = Some ''org-b''\<rparr>"

definition erin :: user where
  "erin = \<lparr>u_id = ''u-erin'', u_email = ''erin@acme.com'', u_firstName = Some ''Erin'',
            u_lastName = None, u_status = ''archived'', u_invitationToken = None,
            u_defaultOrganizationId = Some ''org-a''\<rparr>"

definition frank :: user where
  "frank = \<lparr>u_id = ''u-frank'', u_email = ''frank@acme.com'', u_firstName = Some ''Frank'',
             u_lastName = None, u_status = ''active'', u_invitationToken = None,
             u_defaultOrganizationId = Some ''org-a''\<rparr>"

definition carolInAcme :: organizationUser where
  "carolInAcme = \<lparr>ou_id = ''ou-1'', ou_userId = ''u-carol'',
                   ou_organizationId = Some ''org-a'', ou_status = ''active''\<rparr>"

definition carolInBeta :: organizationUser where
  "carolInBeta = \<lparr>ou_id = ''ou-2'', ou_userId = ''u-carol'',
                   ou_organizationId = Some ''org-b'', ou_status = ''invited''\<rparr>"

definition frankInAcme :: organizationUser where
  "frankInAcme = \<lparr>ou_id = ''ou-3'', ou_userId = ''u-frank'',
                   ou_organizationId = Some ''org-a'', ou_status = ''active''\<rparr>"

definition sampleStore :: db where
  "sampleStore = \<lparr>users = [root, carol, erin, frank], organizations = [orgA, orgB],
                   organizationUsers = [carolInAcme, carolInBeta, frankInAcme],
                   userGroups = []\<rparr>"

definition emptyStore :: db where
  "emptyStore = \<lparr>users = [], organizations = [], organizationUsers = [], userGroups = []\<rparr>"

definition viaConfig :: "string \<Rightarrow> ssoResponse" where
  "viaConfig token = \<lparr>sr_token = token, sr_organizationId = None\<rparr>"

text \<open>The identity the sample provider returns for a token.\<close>

definition identityOf :: "string \<Rightarrow> userResponse" where
  "identityOf token = \<lparr>ur_userSSOId = Some (''sub-'' @ token), ur_email = Some token,
                         ur_firstName = None, ur_lastName = None\<rparr>"

text \<open>
  What the sign-up of \<^verbatim>\<open>dave@acme.com\<close> from the common login page writes into the
  transaction on the sample store: a workspace, the user and an invited membership.
\<close>

definition daveWorkspace :: organization where
  "daveWorkspace = \<lparr>o_id = Some ''id-nnnnnnnnn'', o_name = Some ''Untitled workspace'',
                     o_enableSignUp = False, o_domain = None, o_ssoConfigs = []\<rparr>"

definition dave :: user where
  "dave = \<lparr>u_id = ''id-nnnnnnnnnn'', u_email = ''dave@acme.com'', u_firstName = Some ''dave'',
            u_lastName = None, u_status = ''active'', u_invitationToken = None,
            u_defaultOrganizationId = Some ''id-nnnnnnnnn''\<rparr>"

definition daveInWorkspace :: organizationUser where
  "daveInWorkspace = \<lparr>ou_id = ''id-nnnnnnnnnnn'', ou_userId = ''id-nnnnnnnnnn'',
                       ou_organizationId = Some ''id-nnnnnnnnn'', ou_status = ''invited''\<rparr>"

definition sampleStoreWithDave :: db where
  "sampleStoreWithDave =
     \<lparr>users = [root, carol, erin, frank, dave],
      organizations = [orgA, orgB, daveWorkspace],
      organizationUsers = [carolInAcme, carolInBeta, frankInAcme, daveInWorkspace],
      userGroups = [(''id-nnnnnnnnnn'', Some ''id-nnnnnnnnn'', ''all_users''),
                    (''id-nnnnnnnnnn'', Some ''id-nnnnnnnnn'', ''admin'')]\<rparr>"

section \<open>Properties\<close>

subsection \<open>Strings\<close>

lemma lastIndexOf_ge: "- 1 \<le> lastIndexOf xs c"
  by (induction xs) (auto simp: Let_def)

lemma lastIndexOf_none: "(lastIndexOf xs c = - 1) = (c \<notin> set xs)"
proof (induction xs)
  case Nil
  then show ?case by simp
next
  case (Cons x xs)
  then show ?case using lastIndexOf_ge [of xs c] by (auto simp: Let_def)
qed

lemma substring_lastIndexOf:
  "substring e (lastIndexOf e c + 1) = rev (takeWhile (\<lambda>x. x \<noteq> c) (rev e))"
proof (induction e)
  case Nil
  then show ?case by (simp add: substring_def)
next
  case (Cons x xs)
  show ?case
  proof (cases "c \<in> set xs")
    case True
    then have ne: "lastIndexOf xs c \<noteq> - 1" by (simp add: lastIndexOf_none)
    with lastIndexOf_ge [of xs c] have ge: "0 \<le> lastIndexOf xs c" by arith
    have "substring (x # xs) (lastIndexOf (x # xs) c + 1) = substring xs (lastIndexOf xs c + 1)"
      using ne ge by (simp add: substring_def Let_def nat_add_distrib)
    moreover have "takeWhile (\<lambda>x. x \<noteq> c) (rev xs @ [x]) = takeWhile (\<lambda>x. x \<noteq> c) (rev xs)"
      using True by (intro takeWhile_append1[of c]) auto
    ultimately show ?thesis using Cons by simp
  next
    case False
    then have e: "lastIndexOf xs c = - 1" by (simp add: lastIndexOf_none)
    have t: "takeWhile (\<lambda>x. x \<noteq> c) (rev xs @ [x]) = rev xs @ takeWhile (\<lambda>x. x \<noteq> c) [x]"
      using False by (intro takeWhile_append2) auto
    show ?thesis using e t False
      by (auto simp: substring_def Let_def)
  qed
qed

lemma member_entries:
  "List.member (filter (\<lambda>e. e \<noteq> []) (map (\<lambda>e. if e = [] then e else trim e) (split r (CHR '','')))) d
   = (d \<in> allowListEntries r)"
  by (auto simp: allowListEntries_def trim_def)

subsection \<open>signIn, stage by stage\<close>

lemma signIn_stages:
  assumes "signIn_resolve env (sr_organizationId ssoResponse) configId ssoType (isSingleOrganization env) d = Inr (og, conf)"
      and "signIn_exchange env conf (sr_token ssoResponse) configId cookies = Inr userResponse"
      and "signIn_eligibility env og userResponse d = Inr (ur, email, userDetails, apw)"
  shows "signIn env ssoResponse configId ssoType cookies d =
           (case dbTransactionWrap
                   (signIn_transaction env d (isSingleOrganization env)
                      (isInstanceSSOLogin configId ssoType) (sr_organizationId ssoResponse) og
                      apw ur email userDetails) d of
              (Inl e, d') \<Rightarrow> (Inl e, d')
            | (Inr (u, organizationDetails), d') \<Rightarrow>
                (Inr (generateLoginResultPayload env d' u organizationDetails
                        (isInstanceSSOLogin configId ssoType)), d'))"
  using assms by (simp add: signIn_def signIn_resolved_def)

lemma signIn_resolve_providers:
  "signIn_resolve (env\<lparr>googleSignIn := g, gitSignIn := h, oidcSignIn := k\<rparr>) orgId configId ssoType single d
   = signIn_resolve env orgId configId ssoType single d"
  by (simp add: signIn_resolve_def signIn_resolveModes_def getInstanceSSOConfigs_def getSSOConfigs_def)

subsection \<open>Lookups and activation\<close>

lemma find_SomeD: "find P xs = Some x \<Longrightarrow> P x \<and> x \<in> set xs"
  by (induction xs) (auto split: if_splits)

lemma findByEmail_scoped_Some:
  assumes "usersService_findByEmail email orgId st d = Some (u, ou # ous)"
  shows "u \<in> set (users d) \<and> u_email u = email \<and> ou \<in> set (organizationUsers d)
         \<and> ou_userId ou = u_id u \<and> ou_organizationId ou = orgId
         \<and> (case st of None \<Rightarrow> True | Some l \<Rightarrow> ou_status ou \<in> set l)"
proof (cases "truthy orgId")
  case False
  with assms show ?thesis by (auto simp: usersService_findByEmail_def)
next
  case True
  let ?P = "\<lambda>u ou. ou_userId ou = u_id u \<and> ou_organizationId ou = orgId
                  \<and> (case st of None \<Rightarrow> True | Some l \<Rightarrow> ou_status ou \<in> set l)"
  from assms True
  have "(u, ou # ous) \<in> set (map (\<lambda>u. (u, filter (?P u) (organizationUsers d)))
                               (filter (\<lambda>u. u_email u = email) (users d)))"
    by (auto simp: usersService_findByEmail_def dest: find_SomeD)
  then have u: "u \<in> set (users d)" "u_email u = email"
    and f: "ou # ous = filter (?P u) (organizationUsers d)"
    by auto
  from f have "ou \<in> set (filter (?P u) (organizationUsers d))"
    by (metis list.set_intros(1))
  with u show ?thesis by auto
qed

lemma findByEmail_noMembership:
  assumes "noMembership d email orgId"
  shows "case usersService_findByEmail email orgId (Some [''active'', ''invited'']) d of
           None \<Rightarrow> True
         | Some (u, ous) \<Rightarrow> ous = []"
proof (cases "usersService_findByEmail email orgId (Some [''active'', ''invited'']) d")
  case None
  then show ?thesis by simp
next
  case (Some r)
  obtain u ous where r: "r = (u, ous)" by (cases r)
  show ?thesis
  proof (cases ous)
    case Nil
    with Some r show ?thesis by simp
  next
    case (Cons ou ous')
    with Some r findByEmail_scoped_Some [of email orgId "Some [''active'', ''invited'']" d u ou ous']
    have "u \<in> set (users d)" "u_email u = email" "ou \<in> set (organizationUsers d)"
      "ou_userId ou = u_id u" "ou_organizationId ou = orgId"
      "ou_status ou = ''active'' \<or> ou_status ou = ''invited''"
      by auto
    with assms show ?thesis unfolding noMembership_def by blast
  qed
qed

lemma findAndActivateUser_noMembership:
  assumes "noMembership d email orgId"
  shows "findAndActivateUser email orgId d tx = Inl (Unauthorized ''User does not exist in the workspace'')"
  using findByEmail_noMembership [OF assms]
  by (auto simp: findAndActivateUser_def split: option.splits list.splits)

lemma activate_found:
  assumes "ou \<in> set (organizationUsers tx)"
  shows "\<exists>m \<in> set (organizationUsers (organizationUsersService_activate (Some (ou_id ou)) tx)).
           ou_id m = ou_id ou \<and> ou_userId m = ou_userId ou
           \<and> ou_organizationId m = ou_organizationId ou \<and> ou_status m = ''active''"
proof -
  let ?f = "\<lambda>m. if Some (ou_id m) = Some (ou_id ou) then m\<lparr>ou_status := ''active''\<rparr> else m"
  have "?f ou \<in> ?f ` set (organizationUsers tx)"
    using assms by (rule imageI)
  then have "ou\<lparr>ou_status := ''active''\<rparr>
               \<in> set (organizationUsers (organizationUsersService_activate (Some (ou_id ou)) tx))"
    by (simp add: organizationUsersService_activate_def)
  then show ?thesis
    by (rule bexI [rotated]) simp
qed

lemma organizationList_organizations:
  "organizations tx = organizations tx' \<Longrightarrow>
   signIn_organizationList env d u tx = signIn_organizationList env d u tx'"
  by (simp add: signIn_organizationList_def findOne_Organization_def)

subsection \<open>The stages on the sample deployment\<close>

lemma sample_flags:
  "isSingleOrganization sampleEnv = False"
  "sr_organizationId (viaConfig t) = None"
  "sr_token (viaConfig t) = t"
  by (simp_all add: isSingleOrganization_def sampleEnv_def viaConfig_def)

lemma sample_resolve_config_a:
  "signIn_resolve sampleEnv None (Some ''sso-org-a'') None False sampleStore
     = Inr (orgA, googleConf)"
  by code_simp

lemma sample_resolve_config_b:
  "signIn_resolve sampleEnv None (Some ''sso-org-b'') None False sampleStore
     = Inr (orgB, googleConf)"
  by code_simp

lemma sample_resolve_common:
  "signIn_resolve sampleEnv None None (Some ''google'') False sampleStore
     = Inr (snd (getInstanceSSOConfigs sampleEnv (Some ''google'')),
            fst (getInstanceSSOConfigs sampleEnv (Some ''google'')))"
  by code_simp

lemma sample_exchange:
  "signIn_exchange sampleEnv googleConf t c None = Inr (Some (identityOf t))"
  "signIn_exchange sampleEnv (fst (getInstanceSSOConfigs sampleEnv (Some ''google''))) t c None
     = Inr (Some (identityOf t))"
  by (simp_all add: signIn_exchange_def sampleEnv_def googleConf_def identityOf_def
        getInstanceSSOConfigs_def)

subsection \<open>Domain policy\<close>

text \<open>
  C5, as the code has it. For a non-empty email: an empty or absent allow-list accepts
  it; a non-empty allow-list accepts it exactly when the part after its last \<open>@\<close> is one
  of the comma-separated, trimmed, non-empty entries, compared as they are written. An
  absent or empty email is refused whatever the allow-list. An email with nothing after
  its last \<open>@\<close> is refused when the allow-list is non-empty.
\<close>

theorem isValidDomain_spec:
  "(e \<noteq> [] \<longrightarrow> isValidDomain (Some e) (Some []) \<and> isValidDomain (Some e) None)
   \<and> (l \<noteq> [] \<longrightarrow> isValidDomain (Some e) (Some l) = (domainAfterLastAt e \<in> allowListEntries l))
   \<and> \<not> isValidDomain None r \<and> \<not> isValidDomain (Some []) r
   \<and> (l \<noteq> [] \<and> domainAfterLastAt e = [] \<longrightarrow> \<not> isValidDomain (Some e) (Some l))"
proof -
  have d: "substring e (lastIndexOf e (CHR ''@'') + 1) = domainAfterLastAt e"
    by (simp add: substring_lastIndexOf domainAfterLastAt_def)
  have n: "[] \<notin> allowListEntries l" by (simp add: allowListEntries_def)
  have a: "e \<noteq> [] \<longrightarrow> isValidDomain (Some e) (Some []) \<and> isValidDomain (Some e) None"
    by (simp add: isValidDomain_def truthy_def Let_def)
  have b: "l \<noteq> [] \<longrightarrow> isValidDomain (Some e) (Some l) = (domainAfterLastAt e \<in> allowListEntries l)"
  proof (cases "e = []")
    case True
    then show ?thesis using n by (simp add: isValidDomain_def domainAfterLastAt_def)
  next
    case False
    then show ?thesis using n
      unfolding isValidDomain_def Let_def d member_entries
      by (auto simp add: truthy_def d)
  qed
  have c: "\<not> isValidDomain None r \<and> \<not> isValidDomain (Some []) r"
    by (simp add: isValidDomain_def)
  from a b c n show ?thesis by auto
qed

theorem isValidDomain_spec_witness:
  "isValidDomain (Some ''user@acme.com'') (Some [])
   \<and> isValidDomain (Some ''user@acme.com'') (Some '' acme.com , beta.org'')
   \<and> domainAfterLastAt ''user@acme.com'' \<in> allowListEntries '' acme.com , beta.org''
   \<and> \<not> isValidDomain (Some ''user@'') (Some ''acme.com'')"
proof -
  have a: "isValidDomain (Some ''user@acme.com'') (Some '' acme.com , beta.org'')" by code_simp
  have b: "domainAfterLastAt ''user@'' = []" by code_simp
  show ?thesis
    using isValidDomain_spec [of "''user@acme.com''" "'' acme.com , beta.org''" None]
      isValidDomain_spec [of "''user@''" "''acme.com''" None] a b
    by blast
qed

text \<open>
  Against C5 as stated: with an empty allow-list the email \<^verbatim>\<open>user@\<close>, which has no domain,
  is accepted (the allow-list is tested first, line 41), and the empty email is refused
  although the allow-list is empty (line 36).
\<close>

theorem isValidDomain_counterexample:
  "isValidDomain (Some ''user@'') (Some []) \<and> domainAfterLastAt ''user@'' = []
   \<and> \<not> isValidDomain (Some []) (Some [])"
  by code_simp

subsection \<open>Tenant resolution\<close>

text \<open>
  C6. \<^verbatim>\<open>signIn\<close> applies one of three modes, tried in order, and goes on with the
  organization and the configuration that mode yields: with an explicit \<^verbatim>\<open>configId\<close>,
  the stored configuration and its organization; else, with multi-workspace enabled, a
  provider tag and an organization id, that organization and its configuration for the
  tag; else, with multi-workspace enabled and a provider tag, the instance configuration
  and its synthesized organization. Every other combination throws Unauthorized, and so
  does a mode that leaves the organization or the configuration undefined. When the
  resolution throws or leaves one of them undefined, \<^verbatim>\<open>signIn\<close> throws Unauthorized and
  leaves the store as it was, whatever the identity providers would answer: none of them
  is consulted.
\<close>

theorem signIn_tenant_resolution:
  "(truthy configId \<longrightarrow>
      signIn env ssoResponse configId ssoType cookies d =
        (case getConfigs env d configId of
           None \<Rightarrow> (Inl (Unauthorized []), d)
         | Some (conf, None) \<Rightarrow> (Inl (Unauthorized []), d)
         | Some (conf, Some og) \<Rightarrow>
             signIn_resolved env og conf ssoResponse configId ssoType cookies d))
   \<and> (\<not> truthy configId \<and> \<not> isSingleOrganization env \<and> truthy ssoType
        \<and> truthy (sr_organizationId ssoResponse) \<longrightarrow>
      signIn env ssoResponse configId ssoType cookies d =
        (case fetchOrganizationDetails env d (sr_organizationId ssoResponse) of
           None \<Rightarrow> (Inl (Unauthorized []), d)
         | Some og \<Rightarrow>
             (case find (\<lambda>conf. sc_sso conf = ssoType) (o_ssoConfigs og) of
                None \<Rightarrow> (Inl (Unauthorized []), d)
              | Some conf \<Rightarrow>
                  signIn_resolved env og conf ssoResponse configId ssoType cookies d)))
   \<and> (\<not> truthy configId \<and> \<not> isSingleOrganization env \<and> truthy ssoType
        \<and> \<not> truthy (sr_organizationId ssoResponse) \<longrightarrow>
      signIn env ssoResponse configId ssoType cookies d =
        signIn_resolved env (snd (getInstanceSSOConfigs env ssoType))
          (fst (getInstanceSSOConfigs env ssoType)) ssoResponse configId ssoType cookies d)
   \<and> (\<not> truthy configId \<and> (isSingleOrganization env \<or> \<not> truthy ssoType) \<longrightarrow>
      signIn env ssoResponse configId ssoType cookies d = (Inl (Unauthorized []), d))
   \<and> (\<forall>g h k.
        (case signIn_resolveModes env (sr_organizationId ssoResponse) configId ssoType
                (isSingleOrganization env) d of
           Inl e \<Rightarrow> True
         | Inr (og, conf) \<Rightarrow> og = None \<or> conf = None)
        \<longrightarrow> signIn (env\<lparr>googleSignIn := g, gitSignIn := h, oidcSignIn := k\<rparr>)
              ssoResponse configId ssoType cookies d = (Inl (Unauthorized []), d))"
proof -
  have m1: "truthy configId \<longrightarrow>
      signIn env ssoResponse configId ssoType cookies d =
        (case getConfigs env d configId of
           None \<Rightarrow> (Inl (Unauthorized []), d)
         | Some (conf, None) \<Rightarrow> (Inl (Unauthorized []), d)
         | Some (conf, Some og) \<Rightarrow>
             signIn_resolved env og conf ssoResponse configId ssoType cookies d)"
    by (simp add: signIn_def signIn_resolve_def signIn_resolveModes_def
          split: option.splits prod.splits)
  have m2: "\<not> truthy configId \<and> \<not> isSingleOrganization env \<and> truthy ssoType
        \<and> truthy (sr_organizationId ssoResponse) \<longrightarrow>
      signIn env ssoResponse configId ssoType cookies d =
        (case fetchOrganizationDetails env d (sr_organizationId ssoResponse) of
           None \<Rightarrow> (Inl (Unauthorized []), d)
         | Some og \<Rightarrow>
             (case find (\<lambda>conf. sc_sso conf = ssoType) (o_ssoConfigs og) of
                None \<Rightarrow> (Inl (Unauthorized []), d)
              | Some conf \<Rightarrow>
                  signIn_resolved env og conf ssoResponse configId ssoType cookies d))"
    by (simp add: signIn_def signIn_resolve_def signIn_resolveModes_def
          split: option.splits)
  have m3: "\<not> truthy configId \<and> \<not> isSingleOrganization env \<and> truthy ssoType
        \<and> \<not> truthy (sr_organizationId ssoResponse) \<longrightarrow>
      signIn env ssoResponse configId ssoType cookies d =
        signIn_resolved env (snd (getInstanceSSOConfigs env ssoType))
          (fst (getInstanceSSOConfigs env ssoType)) ssoResponse configId ssoType cookies d"
    by (simp add: signIn_def signIn_resolve_def signIn_resolveModes_def split: prod.splits)
  have m4: "\<not> truthy configId \<and> (isSingleOrganization env \<or> \<not> truthy ssoType) \<longrightarrow>
      signIn env ssoResponse configId ssoType cookies d = (Inl (Unauthorized []), d)"
    by (auto simp add: signIn_def signIn_resolve_def signIn_resolveModes_def)
  have thrown: "\<And>e. signIn_resolveModes env (sr_organizationId ssoResponse) configId ssoType
                  (isSingleOrganization env) d = Inl e \<Longrightarrow> e = Unauthorized []"
    by (auto simp: signIn_resolveModes_def split: if_splits option.splits prod.splits)
  have m5: "\<forall>g h k.
        (case signIn_resolveModes env (sr_organizationId ssoResponse) configId ssoType
                (isSingleOrganization env) d of
           Inl e \<Rightarrow> True
         | Inr (og, conf) \<Rightarrow> og = None \<or> conf = None)
        \<longrightarrow> signIn (env\<lparr>googleSignIn := g, gitSignIn := h, oidcSignIn := k\<rparr>)
              ssoResponse configId ssoType cookies d = (Inl (Unauthorized []), d)"
  proof (intro allI impI)
    fix g h k
    assume a: "case signIn_resolveModes env (sr_organizationId ssoResponse) configId ssoType
                (isSingleOrganization env) d of
           Inl e \<Rightarrow> True
         | Inr (og, conf) \<Rightarrow> og = None \<or> conf = None"
    have s: "isSingleOrganization (env\<lparr>googleSignIn := g, gitSignIn := h, oidcSignIn := k\<rparr>)
             = isSingleOrganization env"
      by (simp add: isSingleOrganization_def)
    have "signIn_resolve env (sr_organizationId ssoResponse) configId ssoType
            (isSingleOrganization env) d = Inl (Unauthorized [])"
      using a thrown
      by (auto simp: signIn_resolve_def split: sum.splits option.splits)
    then show "signIn (env\<lparr>googleSignIn := g, gitSignIn := h, oidcSignIn := k\<rparr>)
              ssoResponse configId ssoType cookies d = (Inl (Unauthorized []), d)"
      by (simp add: signIn_def s signIn_resolve_providers)
  qed
  from m1 m2 m3 m4 m5 show ?thesis by blast
qed

theorem signIn_tenant_resolution_witness:
  "signIn sampleEnv (viaConfig ''carol@acme.com'') (Some ''sso-org-a'') None None sampleStore
     = signIn_resolved sampleEnv orgA googleConf (viaConfig ''carol@acme.com'')
         (Some ''sso-org-a'') None None sampleStore
   \<and> signIn sampleEnv \<lparr>sr_token = ''carol@acme.com'', sr_organizationId = Some ''org-b''\<rparr>
        None (Some ''google'') None sampleStore
     = signIn_resolved sampleEnv orgB googleConf
         \<lparr>sr_token = ''carol@acme.com'', sr_organizationId = Some ''org-b''\<rparr>
         None (Some ''google'') None sampleStore
   \<and> signIn sampleEnv (viaConfig ''carol@acme.com'') None (Some ''google'') None sampleStore
     = signIn_resolved sampleEnv (snd (getInstanceSSOConfigs sampleEnv (Some ''google'')))
         (fst (getInstanceSSOConfigs sampleEnv (Some ''google''))) (viaConfig ''carol@acme.com'')
         None (Some ''google'') None sampleStore
   \<and> signIn sampleEnv (viaConfig ''carol@acme.com'') None None None sampleStore
     = (Inl (Unauthorized []), sampleStore)
   \<and> signIn_resolveModes sampleEnv None (Some ''sso-org-z'') None False sampleStore
     = Inr (None, None)
   \<and> signIn (sampleEnv\<lparr>googleSignIn := (\<lambda>t c. Inl (Thrown ''down'')),
                        gitSignIn := (\<lambda>t c. Inl (Thrown ''down'')),
                        oidcSignIn := (\<lambda>t c i v. Inl (Thrown ''down''))\<rparr>)
        (viaConfig ''carol@acme.com'') (Some ''sso-org-z'') None None sampleStore
     = (Inl (Unauthorized []), sampleStore)"
proof -
  note t = signIn_tenant_resolution [where env = sampleEnv and d = sampleStore
             and cookies = None]
  have c1: "getConfigs sampleEnv sampleStore (Some ''sso-org-a'') = Some (googleConf, Some orgA)"
    by code_simp
  have c2: "fetchOrganizationDetails sampleEnv sampleStore (Some ''org-b'') = Some orgB"
    by code_simp
  have c3: "find (\<lambda>conf. sc_sso conf = Some ''google'') (o_ssoConfigs orgB) = Some googleConf"
    by code_simp
  have c5: "signIn_resolveModes sampleEnv (sr_organizationId (viaConfig ''carol@acme.com''))
              (Some ''sso-org-z'') None (isSingleOrganization sampleEnv) sampleStore
            = Inr (None, None)"
    by code_simp
  have m1: "signIn sampleEnv (viaConfig ''carol@acme.com'') (Some ''sso-org-a'') None None
              sampleStore
            = signIn_resolved sampleEnv orgA googleConf (viaConfig ''carol@acme.com'')
                (Some ''sso-org-a'') None None sampleStore"
    using t [where configId = "Some ''sso-org-a''" and ssoType = None
               and ssoResponse = "viaConfig ''carol@acme.com''"] c1
    by (simp add: truthy_def)
  have m2: "signIn sampleEnv \<lparr>sr_token = ''carol@acme.com'', sr_organizationId = Some ''org-b''\<rparr>
              None (Some ''google'') None sampleStore
            = signIn_resolved sampleEnv orgB googleConf
                \<lparr>sr_token = ''carol@acme.com'', sr_organizationId = Some ''org-b''\<rparr>
                None (Some ''google'') None sampleStore"
    using t [where configId = None and ssoType = "Some ''google''"
               and ssoResponse = "\<lparr>sr_token = ''carol@acme.com'',
                                     sr_organizationId = Some ''org-b''\<rparr>"] c2 c3
    by (simp add: truthy_def sample_flags)
  have m3: "signIn sampleEnv (viaConfig ''carol@acme.com'') None (Some ''google'') None
              sampleStore
            = signIn_resolved sampleEnv (snd (getInstanceSSOConfigs sampleEnv (Some ''google'')))
                (fst (getInstanceSSOConfigs sampleEnv (Some ''google'')))
                (viaConfig ''carol@acme.com'') None (Some ''google'') None sampleStore"
    using t [where configId = None and ssoType = "Some ''google''"
               and ssoResponse = "viaConfig ''carol@acme.com''"]
    by (simp add: truthy_def sample_flags)
  have m4: "signIn sampleEnv (viaConfig ''carol@acme.com'') None None None sampleStore
              = (Inl (Unauthorized []), sampleStore)"
    using t [where configId = None and ssoType = None
               and ssoResponse = "viaConfig ''carol@acme.com''"]
    by (simp add: truthy_def)
  have m5: "signIn (sampleEnv\<lparr>googleSignIn := (\<lambda>t c. Inl (Thrown ''down'')),
                        gitSignIn := (\<lambda>t c. Inl (Thrown ''down'')),
                        oidcSignIn := (\<lambda>t c i v. Inl (Thrown ''down''))\<rparr>)
        (viaConfig ''carol@acme.com'') (Some ''sso-org-z'') None None sampleStore
     = (Inl (Unauthorized []), sampleStore)"
  proof -
    have "\<forall>g h k. signIn (sampleEnv\<lparr>googleSignIn := g, gitSignIn := h, oidcSignIn := k\<rparr>)
             (viaConfig ''carol@acme.com'') (Some ''sso-org-z'') None None sampleStore
           = (Inl (Unauthorized []), sampleStore)"
      using t [where configId = "Some ''sso-org-z''" and ssoType = None
               and ssoResponse = "viaConfig ''carol@acme.com''"] c5
      by simp
    then show ?thesis by blast
  qed
  from m1 m2 m3 m4 m5 c5 show ?thesis by (simp add: sample_flags)
qed

subsection \<open>Archived users\<close>

text \<open>
  C8. However the tenant was resolved, when the provider returns an identity with a
  subject id and an email, and the user with that email is archived, \<^verbatim>\<open>signIn\<close> throws
  NotAcceptable and the store is unchanged. Neither the domain policy nor the
  super-admin flag is consulted before.
\<close>

theorem signIn_archived_NotAcceptable:
  assumes "signIn_resolve env (sr_organizationId ssoResponse) configId ssoType
             (isSingleOrganization env) d = Inr (og, conf)"
      and "signIn_exchange env conf (sr_token ssoResponse) configId cookies = Inr (Some ur)"
      and "truthy (ur_userSSOId ur)" and "ur_email ur = Some email" and "email \<noteq> []"
      and "find (\<lambda>u. u_email u = email) (users d) = Some u"
      and "u_status u = ''archived''"
  shows "signIn env ssoResponse configId ssoType cookies d =
           (Inl (NotAcceptable
              ''User has been removed from the system, please contact the administrator''), d)"
  using assms
  by (simp add: signIn_def signIn_resolved_def signIn_eligibility_def
        usersService_findByEmail_def truthy_def)

theorem signIn_archived_NotAcceptable_witness:
  "signIn sampleEnv (viaConfig ''erin@acme.com'') (Some ''sso-org-a'') None None sampleStore =
     (Inl (NotAcceptable
        ''User has been removed from the system, please contact the administrator''), sampleStore)"
proof -
  have r: "signIn_resolve sampleEnv (sr_organizationId (viaConfig ''erin@acme.com'')) (Some ''sso-org-a'') None
             (isSingleOrganization sampleEnv) sampleStore = Inr (orgA, googleConf)"
    by code_simp
  have x: "signIn_exchange sampleEnv googleConf (sr_token (viaConfig ''erin@acme.com'')) (Some ''sso-org-a'') None
             = Inr (Some \<lparr>ur_userSSOId = Some ''sub-erin@acme.com'', ur_email = Some ''erin@acme.com'',
                         ur_firstName = None, ur_lastName = None\<rparr>)"
    by code_simp
  have f: "find (\<lambda>u. u_email u = ''erin@acme.com'') (users sampleStore) = Some erin"
    by code_simp
  have s: "u_status erin = ''archived''" by code_simp
  show ?thesis
    using signIn_archived_NotAcceptable [OF r x _ _ _ f s]
    by (simp add: truthy_def)
qed

subsection \<open>Unknown provider tags\<close>

text \<open>
  C9. When the resolved configuration has a tag other than \<^verbatim>\<open>google\<close>, \<^verbatim>\<open>git\<close> and
  \<^verbatim>\<open>openid\<close>, no provider is called, \<^verbatim>\<open>userResponse\<close> stays undefined, and \<^verbatim>\<open>signIn\<close> ends
  with the TypeError of reading \<^verbatim>\<open>userSSOId\<close> of it: no session, and neither Unauthorized
  nor NotAcceptable.
\<close>

theorem signIn_unknown_provider:
  assumes "signIn_resolve env (sr_organizationId ssoResponse) configId ssoType
             (isSingleOrganization env) d = Inr (og, conf)"
      and "sc_sso conf \<notin> {Some ''google'', Some ''git'', Some ''openid''}"
  shows "signIn env ssoResponse configId ssoType cookies d = (Inl TypeError, d)"
  using assms
  by (simp add: signIn_def signIn_resolved_def signIn_exchange_def signIn_eligibility_def)

theorem signIn_unknown_provider_witness:
  "sc_sso formConf \<notin> {Some ''google'', Some ''git'', Some ''openid''}
   \<and> signIn sampleEnv (viaConfig ''carol@acme.com'') (Some ''form-org-a'') None None sampleStore
       = (Inl TypeError, sampleStore)"
proof -
  have r: "signIn_resolve sampleEnv (sr_organizationId (viaConfig ''carol@acme.com'')) (Some ''form-org-a'') None
             (isSingleOrganization sampleEnv) sampleStore = Inr (orgA, formConf)"
    by code_simp
  have t: "sc_sso formConf \<notin> {Some ''google'', Some ''git'', Some ''openid''}"
    by (simp add: formConf_def)
  show ?thesis using signIn_unknown_provider [OF r t] t by simp
qed

subsection \<open>Sign-up disabled\<close>

lemma signIn_signup_disabled_eligible:
  assumes "signIn_resolve env (sr_organizationId ssoResponse) configId ssoType
             (isSingleOrganization env) d = Inr (og, conf)"
      and "signIn_exchange env conf (sr_token ssoResponse) configId cookies = Inr userResponse"
      and "signIn_eligibility env og userResponse d = Inr (ur, email, userDetails, apw)"
      and "\<not> (\<not> isSingleOrganization env \<and> isInstanceSSOLogin configId ssoType
               \<and> \<not> truthy (sr_organizationId ssoResponse))"
      and "\<not> o_enableSignUp og"
      and "noMembership d email (o_id og)"
  shows "signIn env ssoResponse configId ssoType cookies d =
           (Inl (Unauthorized ''User does not exist in the workspace''), d)"
proof -
  have "signIn_transaction env d (isSingleOrganization env)
          (isInstanceSSOLogin configId ssoType) (sr_organizationId ssoResponse) og
          apw ur email userDetails d = Inl (Unauthorized ''User does not exist in the workspace'')"
    using assms(5) findAndActivateUser_noMembership [OF assms(6), of d]
    by (simp add: signIn_transaction_def signIn_provision_def signIn_direct_def
          if_not_P [OF assms(4)])
  then show ?thesis
    by (simp add: signIn_stages [OF assms(1-3)] dbTransactionWrap_def)
qed

lemma findByEmail_unscoped:
  "usersService_findByEmail email None st d =
     map_option (\<lambda>u. (u, [])) (find (\<lambda>u. u_email u = email) (users d))"
  by (simp add: usersService_findByEmail_def truthy_def)

lemma signIn_eligibility_error:
  assumes "signIn_eligibility env og (Some ur) d = Inl e" and "ur_email ur = Some email"
  shows "\<exists>msg. e = (if truthy (ur_userSSOId ur) \<and> email \<noteq> [] \<and> archivedUser d email
                    then NotAcceptable msg else Unauthorized msg)"
  using assms
  by (auto simp: signIn_eligibility_def findByEmail_unscoped archivedUser_def Let_def
        split: if_splits option.splits)

lemma signIn_eligibility_passed:
  assumes "signIn_eligibility env og (Some ur) d = Inr (ur', email', userDetails, apw)"
      and "ur_email ur = Some email"
  shows "email' = email \<and> \<not> archivedUser d email"
  using assms
  by (auto simp: signIn_eligibility_def findByEmail_unscoped archivedUser_def Let_def
        split: if_splits option.splits)

text \<open>
  C7, as the code has it. A direct-to-organization sign-in, for an organization with
  sign-up disabled, when no membership in status active or invited links a user with
  the identity's email to the organization: \<^verbatim>\<open>signIn\<close> issues no session and the store is
  as it was, so no user, organization or membership is created. The error is
  Unauthorized, except that it is NotAcceptable when the identity has a subject id and
  its email is that of an archived user.
\<close>

theorem signIn_signup_disabled_no_membership:
  assumes "signIn_resolve env (sr_organizationId ssoResponse) configId ssoType
             (isSingleOrganization env) d = Inr (og, conf)"
      and "signIn_exchange env conf (sr_token ssoResponse) configId cookies = Inr (Some ur)"
      and "ur_email ur = Some email"
      and "\<not> (\<not> isSingleOrganization env \<and> isInstanceSSOLogin configId ssoType
               \<and> \<not> truthy (sr_organizationId ssoResponse))"
      and "\<not> o_enableSignUp og"
      and "noMembership d email (o_id og)"
  shows "snd (signIn env ssoResponse configId ssoType cookies d) = d
         \<and> (\<exists>msg. fst (signIn env ssoResponse configId ssoType cookies d) =
               (if truthy (ur_userSSOId ur) \<and> email \<noteq> [] \<and> archivedUser d email
                then Inl (NotAcceptable msg) else Inl (Unauthorized msg)))"
proof (cases "signIn_eligibility env og (Some ur) d")
  case (Inl e)
  then have "signIn env ssoResponse configId ssoType cookies d = (Inl e, d)"
    using assms(1,2) by (simp add: signIn_def signIn_resolved_def)
  with signIn_eligibility_error [OF Inl assms(3)] show ?thesis by auto
next
  case (Inr r)
  obtain ur' email' userDetails apw where r: "r = (ur', email', userDetails, apw)"
    by (cases r)
  from Inr r have e: "signIn_eligibility env og (Some ur) d = Inr (ur', email', userDetails, apw)"
    by simp
  from signIn_eligibility_passed [OF e assms(3)]
  have p: "email' = email" "\<not> archivedUser d email" by simp_all
  from assms(6) p(1) have n: "noMembership d email' (o_id og)" by simp
  have "signIn env ssoResponse configId ssoType cookies d =
          (Inl (Unauthorized ''User does not exist in the workspace''), d)"
    by (rule signIn_signup_disabled_eligible [OF assms(1,2) e assms(4,5) n])
  with p(2) show ?thesis by auto
qed

theorem signIn_signup_disabled_no_membership_witness:
  "\<not> o_enableSignUp orgA \<and> noMembership sampleStore ''dave@acme.com'' (o_id orgA)
   \<and> \<not> archivedUser sampleStore ''dave@acme.com''
   \<and> snd (signIn sampleEnv (viaConfig ''dave@acme.com'') (Some ''sso-org-a'') None None
            sampleStore) = sampleStore
   \<and> (\<exists>msg. fst (signIn sampleEnv (viaConfig ''dave@acme.com'') (Some ''sso-org-a'') None None
                   sampleStore) = Inl (Unauthorized msg))"
proof -
  have r: "signIn_resolve sampleEnv (sr_organizationId (viaConfig ''dave@acme.com''))
             (Some ''sso-org-a'') None (isSingleOrganization sampleEnv) sampleStore
           = Inr (orgA, googleConf)"
    by (simp add: sample_flags sample_resolve_config_a)
  have x: "signIn_exchange sampleEnv googleConf (sr_token (viaConfig ''dave@acme.com''))
             (Some ''sso-org-a'') None = Inr (Some (identityOf ''dave@acme.com''))"
    by (simp add: sample_flags sample_exchange)
  have m: "ur_email (identityOf ''dave@acme.com'') = Some ''dave@acme.com''"
    by (simp add: identityOf_def)
  have p: "\<not> (\<not> isSingleOrganization sampleEnv
               \<and> isInstanceSSOLogin (Some ''sso-org-a'') None
               \<and> \<not> truthy (sr_organizationId (viaConfig ''dave@acme.com'')))"
    by (simp add: isInstanceSSOLogin_def truthy_def)
  have s: "\<not> o_enableSignUp orgA" by (simp add: orgA_def)
  have n: "noMembership sampleStore ''dave@acme.com'' (o_id orgA)" by code_simp
  have a: "\<not> archivedUser sampleStore ''dave@acme.com''" by code_simp
  show ?thesis
    using signIn_signup_disabled_no_membership [OF r x m p s n] s n a by simp
qed

text \<open>
  Against C7 as stated: the organization has sign-up disabled and the archived user has
  no membership in it; line 238 throws NotAcceptable before the provisioning is reached.
\<close>

theorem signIn_signup_disabled_archived:
  "o_enableSignUp orgA = False
   \<and> usersService_findByEmail ''erin@acme.com'' (o_id orgA) (Some [''active'', ''invited''])
       sampleStore = None
   \<and> filter (\<lambda>m. ou_userId m = u_id erin) (organizationUsers sampleStore) = []
   \<and> signIn sampleEnv (viaConfig ''erin@acme.com'') (Some ''sso-org-a'') None None sampleStore
       = (Inl (NotAcceptable
            ''User has been removed from the system, please contact the administrator''),
          sampleStore)"
  by code_simp

subsection \<open>The license check and the transaction\<close>

text \<open>
  C2. The license check is the last step of the operation handed to
  \<^verbatim>\<open>dbTransactionWrap\<close>. When the provisioning of a sign-in has produced a transaction
  state \<open>tx\<close>, with whatever users, organizations and memberships it created, and the
  license check on \<open>tx\<close> throws, \<^verbatim>\<open>signIn\<close> throws that error and the store is the one
  before the call.
\<close>

theorem signIn_license_failure_rolls_back:
  assumes "signIn_resolve env (sr_organizationId ssoResponse) configId ssoType
             (isSingleOrganization env) d = Inr (og, conf)"
      and "signIn_exchange env conf (sr_token ssoResponse) configId cookies = Inr userResponse"
      and "signIn_eligibility env og userResponse d = Inr (ur, email, userDetails, apw)"
      and "signIn_provision env d (isSingleOrganization env) (isInstanceSSOLogin configId ssoType)
             (sr_organizationId ssoResponse) og apw ur email userDetails d = Inr (r, tx)"
      and "validateLicense env tx = Some e"
  shows "signIn env ssoResponse configId ssoType cookies d = (Inl e, d)"
  using assms(4,5)
  by (simp add: signIn_stages [OF assms(1-3)] dbTransactionWrap_def signIn_transaction_def)

theorem signIn_license_failure_rolls_back_witness:
  "signIn_provision sampleEnv sampleStore False True None
      (snd (getInstanceSSOConfigs sampleEnv (Some ''google''))) True
      ((identityOf ''dave@acme.com'')\<lparr>ur_firstName := Some ''dave''\<rparr>) ''dave@acme.com'' None
      sampleStore
     = Inr ((dave, daveWorkspace), sampleStoreWithDave)
   \<and> validateLicense sampleEnv sampleStoreWithDave
       = Some (Thrown ''License violation - Maximum user limit reached'')
   \<and> signIn sampleEnv (viaConfig ''dave@acme.com'') None (Some ''google'') None sampleStore
       = (Inl (Thrown ''License violation - Maximum user limit reached''), sampleStore)"
proof -
  have i: "isInstanceSSOLogin None (Some ''google'') = True"
    by (simp add: isInstanceSSOLogin_def truthy_def)
  have r: "signIn_resolve sampleEnv (sr_organizationId (viaConfig ''dave@acme.com''))
             None (Some ''google'') (isSingleOrganization sampleEnv) sampleStore
           = Inr (snd (getInstanceSSOConfigs sampleEnv (Some ''google'')),
                  fst (getInstanceSSOConfigs sampleEnv (Some ''google'')))"
    by (simp add: sample_flags sample_resolve_common)
  have x: "signIn_exchange sampleEnv (fst (getInstanceSSOConfigs sampleEnv (Some ''google'')))
             (sr_token (viaConfig ''dave@acme.com'')) None None
           = Inr (Some (identityOf ''dave@acme.com''))"
    by (simp add: sample_flags sample_exchange)
  have e: "signIn_eligibility sampleEnv (snd (getInstanceSSOConfigs sampleEnv (Some ''google'')))
             (Some (identityOf ''dave@acme.com'')) sampleStore
           = Inr ((identityOf ''dave@acme.com'')\<lparr>ur_firstName := Some ''dave''\<rparr>,
                  ''dave@acme.com'', None, True)"
    by code_simp
  have p: "signIn_provision sampleEnv sampleStore (isSingleOrganization sampleEnv)
             (isInstanceSSOLogin None (Some ''google''))
             (sr_organizationId (viaConfig ''dave@acme.com''))
             (snd (getInstanceSSOConfigs sampleEnv (Some ''google''))) True
             ((identityOf ''dave@acme.com'')\<lparr>ur_firstName := Some ''dave''\<rparr>) ''dave@acme.com''
             None sampleStore
           = Inr ((dave, daveWorkspace), sampleStoreWithDave)"
    unfolding sample_flags i by code_simp
  have v: "validateLicense sampleEnv sampleStoreWithDave
             = Some (Thrown ''License violation - Maximum user limit reached'')"
    by code_simp
  show ?thesis
    using signIn_license_failure_rolls_back [OF r x e p v] p v
    by (simp add: sample_flags i)
qed

subsection \<open>Common login page, existing user without invitation\<close>

text \<open>
  C10. On the common login page, for an existing user with no pending invitation token
  whose candidate list is not empty, \<^verbatim>\<open>signIn\<close> leaves the store as it was, and the
  organization of the session is the user's default organization if it is among the
  candidates and the first candidate otherwise; the session is issued unless the license
  check throws.
\<close>

theorem signIn_commonPage_existing_no_writes:
  assumes "signIn_resolve env (sr_organizationId ssoResponse) configId ssoType
             (isSingleOrganization env) d = Inr (og, conf)"
      and "signIn_exchange env conf (sr_token ssoResponse) configId cookies = Inr userResponse"
      and "signIn_eligibility env og userResponse d = Inr (ur, email, Some u, apw)"
      and "\<not> isSingleOrganization env" and "isInstanceSSOLogin configId ssoType"
      and "\<not> truthy (sr_organizationId ssoResponse)"
      and "\<not> truthy (u_invitationToken u)"
      and "signIn_organizationList env d u d = Inr l" and "l \<noteq> []"
  shows "snd (signIn env ssoResponse configId ssoType cookies d) = d
         \<and> (\<exists>sel. preferredOrganization u l = Some sel
              \<and> fst (signIn env ssoResponse configId ssoType cookies d) =
                  (case validateLicense env d of
                     Some e \<Rightarrow> Inl e
                   | None \<Rightarrow> Inr (generateLoginResultPayload env d u sel True)))"
proof -
  have "\<exists>sel. preferredOrganization u l = Some sel"
  proof (cases "find (\<lambda>og. o_id og = u_defaultOrganizationId u) l")
    case None
    with assms(9) show ?thesis
      by (cases l) (simp_all add: preferredOrganization_def)
  next
    case (Some og')
    then show ?thesis by (simp add: preferredOrganization_def)
  qed
  then obtain sel where sel: "preferredOrganization u l = Some sel" ..
  have "signIn_selectOrganization env d apw u d = Inr (sel, d)"
    using assms(8) sel
    by (auto simp: signIn_selectOrganization_def preferredOrganization_def
          split: option.splits list.splits)
  then have "signIn_provision env d (isSingleOrganization env) (isInstanceSSOLogin configId ssoType)
             (sr_organizationId ssoResponse) og apw ur email (Some u) d = Inr ((u, sel), d)"
    using assms(4-7) by (simp add: signIn_provision_def signIn_commonPage_def)
  then have t: "signIn_transaction env d (isSingleOrganization env) (isInstanceSSOLogin configId ssoType)
             (sr_organizationId ssoResponse) og apw ur email (Some u) d =
           (case validateLicense env d of Some e \<Rightarrow> Inl e | None \<Rightarrow> Inr ((u, sel), d))"
    by (simp add: signIn_transaction_def)
  have r: "signIn env ssoResponse configId ssoType cookies d =
             (case validateLicense env d of
                Some e \<Rightarrow> (Inl e, d)
              | None \<Rightarrow> (Inr (generateLoginResultPayload env d u sel
                                (isInstanceSSOLogin configId ssoType)), d))"
    by (cases "validateLicense env d")
       (simp_all add: signIn_stages [OF assms(1-3)] dbTransactionWrap_def t)
  show ?thesis
    using sel assms(5) by (cases "validateLicense env d") (simp_all add: r)
qed

theorem signIn_commonPage_existing_no_writes_witness:
  "signIn_organizationList sampleEnv sampleStore frank sampleStore = Inr [orgA]
   \<and> preferredOrganization frank [orgA] = Some orgA
   \<and> signIn sampleEnv (viaConfig ''frank@acme.com'') None (Some ''google'') None sampleStore
       = (Inr (generateLoginResultPayload sampleEnv sampleStore frank orgA True), sampleStore)"
proof -
  have i: "isInstanceSSOLogin None (Some ''google'')"
    by (simp add: isInstanceSSOLogin_def truthy_def)
  have r: "signIn_resolve sampleEnv (sr_organizationId (viaConfig ''frank@acme.com''))
             None (Some ''google'') (isSingleOrganization sampleEnv) sampleStore
           = Inr (snd (getInstanceSSOConfigs sampleEnv (Some ''google'')),
                  fst (getInstanceSSOConfigs sampleEnv (Some ''google'')))"
    by (simp add: sample_flags sample_resolve_common)
  have x: "signIn_exchange sampleEnv (fst (getInstanceSSOConfigs sampleEnv (Some ''google'')))
             (sr_token (viaConfig ''frank@acme.com'')) None None
           = Inr (Some (identityOf ''frank@acme.com''))"
    by (simp add: sample_flags sample_exchange)
  have e: "signIn_eligibility sampleEnv (snd (getInstanceSSOConfigs sampleEnv (Some ''google'')))
             (Some (identityOf ''frank@acme.com'')) sampleStore
           = Inr ((identityOf ''frank@acme.com'')\<lparr>ur_firstName := Some ''frank''\<rparr>,
                  ''frank@acme.com'', Some frank, True)"
    by code_simp
  have m: "\<not> isSingleOrganization sampleEnv" by (simp add: sample_flags)
  have o: "\<not> truthy (sr_organizationId (viaConfig ''frank@acme.com''))"
    by (simp add: sample_flags truthy_def)
  have t: "\<not> truthy (u_invitationToken frank)" by (simp add: frank_def truthy_def)
  have l: "signIn_organizationList sampleEnv sampleStore frank sampleStore = Inr [orgA]"
    by code_simp
  have pr: "preferredOrganization frank [orgA] = Some orgA" by code_simp
  have v: "validateLicense sampleEnv sampleStore = None" by code_simp
  from signIn_commonPage_existing_no_writes [OF r x e m i o t l] pr v
  have "snd (signIn sampleEnv (viaConfig ''frank@acme.com'') None (Some ''google'') None sampleStore)
          = sampleStore"
    and "fst (signIn sampleEnv (viaConfig ''frank@acme.com'') None (Some ''google'') None sampleStore)
          = Inr (generateLoginResultPayload sampleEnv sampleStore frank orgA True)"
    by simp_all
  then show ?thesis using l pr by (simp add: prod_eq_iff)
qed

subsection \<open>Memberships after a sign-in\<close>

text \<open>
  C1, as the code has it. A successful sign-in on the direct-to-organization path, when
  the lookup of the identity's email in the organization among the statuses active and
  invited finds a membership: the session names the user found and the organization, and
  that membership links the two and is active in the store after the call.
\<close>

theorem signIn_direct_existing_membership_active:
  assumes "signIn_resolve env (sr_organizationId ssoResponse) configId ssoType
             (isSingleOrganization env) d = Inr (og, conf)"
      and "signIn_exchange env conf (sr_token ssoResponse) configId cookies = Inr userResponse"
      and "signIn_eligibility env og userResponse d = Inr (ur, email, userDetails, apw)"
      and "\<not> (\<not> isSingleOrganization env \<and> isInstanceSSOLogin configId ssoType
               \<and> \<not> truthy (sr_organizationId ssoResponse))"
      and "usersService_findByEmail email (o_id og) (Some [''active'', ''invited'']) d
             = Some (u, ou # ous)"
      and "signIn env ssoResponse configId ssoType cookies d = (Inr r, d')"
  shows "lr_id r = u_id u \<and> organization_id r = o_id og
         \<and> (\<exists>m \<in> set (organizationUsers d').
               ou_id m = ou_id ou \<and> ou_userId m = u_id u \<and> ou_organizationId m = o_id og
               \<and> ou_status m = ''active'')"
proof -
  let ?tx = "if ou_status ou \<noteq> ''active''
             then organizationUsersService_activate (Some (ou_id ou)) d else d"
  from findByEmail_scoped_Some [OF assms(5)]
  have ou: "ou \<in> set (organizationUsers d)" "ou_userId ou = u_id u"
    "ou_organizationId ou = o_id og"
    by auto
  have "signIn_direct env d og ur email d = Inr ((u, og), ?tx)"
    using assms(5) by (simp add: signIn_direct_def findAndActivateUser_def findOrCreateUser_def)
  then have p: "signIn_provision env d (isSingleOrganization env) (isInstanceSSOLogin configId ssoType)
             (sr_organizationId ssoResponse) og apw ur email userDetails d = Inr ((u, og), ?tx)"
    by (simp add: signIn_provision_def if_not_P [OF assms(4)])
  have res: "r = generateLoginResultPayload env d' u og (isInstanceSSOLogin configId ssoType)"
    and d': "d' = ?tx"
    using assms(6) p
    by (auto simp: signIn_stages [OF assms(1-3)] dbTransactionWrap_def signIn_transaction_def
          split: option.splits)
  have m: "\<exists>m \<in> set (organizationUsers ?tx).
               ou_id m = ou_id ou \<and> ou_userId m = ou_userId ou
               \<and> ou_organizationId m = ou_organizationId ou \<and> ou_status m = ''active''"
  proof (cases "ou_status ou \<noteq> ''active''")
    case True
    then show ?thesis using activate_found [OF ou(1)] by simp
  next
    case False
    then show ?thesis using ou(1) by auto
  qed
  show ?thesis
    using m ou(2,3) by (simp add: res d' generateLoginResultPayload_def Let_def)
qed

theorem signIn_direct_existing_membership_active_witness:
  "usersService_findByEmail ''carol@acme.com'' (o_id orgB) (Some [''active'', ''invited''])
      sampleStore = Some (carol, [carolInBeta])
   \<and> ou_status carolInBeta = ''invited''
   \<and> signIn sampleEnv (viaConfig ''carol@acme.com'') (Some ''sso-org-b'') None None sampleStore
       = (Inr (generateLoginResultPayload sampleEnv
                 (organizationUsersService_activate (Some ''ou-2'') sampleStore) carol orgB False),
          organizationUsersService_activate (Some ''ou-2'') sampleStore)
   \<and> (\<exists>m \<in> set (organizationUsers (organizationUsersService_activate (Some ''ou-2'') sampleStore)).
         ou_id m = ''ou-2'' \<and> ou_userId m = ''u-carol'' \<and> ou_organizationId m = Some ''org-b''
         \<and> ou_status m = ''active'')"
proof -
  have r: "signIn_resolve sampleEnv (sr_organizationId (viaConfig ''carol@acme.com''))
             (Some ''sso-org-b'') None (isSingleOrganization sampleEnv) sampleStore
           = Inr (orgB, googleConf)"
    by (simp add: sample_flags sample_resolve_config_b)
  have x: "signIn_exchange sampleEnv googleConf (sr_token (viaConfig ''carol@acme.com''))
             (Some ''sso-org-b'') None = Inr (Some (identityOf ''carol@acme.com''))"
    by (simp add: sample_flags sample_exchange)
  have e: "signIn_eligibility sampleEnv orgB (Some (identityOf ''carol@acme.com'')) sampleStore
           = Inr ((identityOf ''carol@acme.com'')\<lparr>ur_firstName := Some ''carol''\<rparr>,
                  ''carol@acme.com'', Some carol, True)"
    by code_simp
  have p: "\<not> (\<not> isSingleOrganization sampleEnv
               \<and> isInstanceSSOLogin (Some ''sso-org-b'') None
               \<and> \<not> truthy (sr_organizationId (viaConfig ''carol@acme.com'')))"
    by (simp add: isInstanceSSOLogin_def truthy_def)
  have l: "usersService_findByEmail ''carol@acme.com'' (o_id orgB)
             (Some [''active'', ''invited'']) sampleStore = Some (carol, [carolInBeta])"
    by code_simp
  have s: "signIn sampleEnv (viaConfig ''carol@acme.com'') (Some ''sso-org-b'') None None
             sampleStore
           = (Inr (generateLoginResultPayload sampleEnv
                     (organizationUsersService_activate (Some ''ou-2'') sampleStore) carol orgB
                     False),
              organizationUsersService_activate (Some ''ou-2'') sampleStore)"
    by code_simp
  have c: "ou_id carolInBeta = ''ou-2''" "u_id carol = ''u-carol''" "o_id orgB = Some ''org-b''"
    "ou_status carolInBeta = ''invited''"
    by (simp_all add: carolInBeta_def carol_def orgB_def)
  show ?thesis
    using signIn_direct_existing_membership_active [OF r x e p l s] l s c by simp
qed

text \<open>
  Against C1 as stated: a super-admin with no membership at all signs in from the common
  login page; lines 301-305 pick the default organization (or any organization), and
  the session is issued for it while no membership of the user exists.
\<close>

theorem signIn_superAdmin_without_membership:
  "map_sum id (\<lambda>r. (lr_id r, organization_id r))
     (fst (signIn sampleEnv (viaConfig ''root@example.com'') None (Some ''google'') None
             sampleStore))
     = Inr (''u-root'', Some ''org-a'')
   \<and> filter (\<lambda>m. ou_userId m = ''u-root'')
        (organizationUsers
           (snd (signIn sampleEnv (viaConfig ''root@example.com'') None (Some ''google'') None
                   sampleStore))) = []"
  by code_simp

text \<open>
  The bootstrap sign-up on an empty store succeeds as well, and the membership it creates
  (line 285) is still invited when the session is issued.
\<close>

lemma signIn_bootstrap_membership_invited:
  "map_sum id (\<lambda>r. (lr_id r, organization_id r, organization_name r))
     (fst (signIn sampleEnv (viaConfig ''dave@acme.com'') None (Some ''google'') None
             emptyStore))
     = Inr (''id-n'', Some ''id-'', Some ''Untitled workspace'')
   \<and> organizationUsers
        (snd (signIn sampleEnv (viaConfig ''dave@acme.com'') None (Some ''google'') None
                emptyStore))
     = [\<lparr>ou_id = ''id-nn'', ou_userId = ''id-n'', ou_organizationId = Some ''id-'',
          ou_status = ''invited''\<rparr>]"
  by code_simp

subsection \<open>Find or create\<close>

text \<open>
  C3. When no membership in status active or invited links the email to the
  organization, \<^verbatim>\<open>#findOrCreateUser\<close> creates an invited membership in the organization:
  of a user it creates first when no user has the email, and of the existing user, who
  is not yet linked to the organization, otherwise (no user row is written then). When
  the lookup finds a membership that is not active, the membership with its id is
  activated; when it is active, nothing is written.
\<close>

theorem findOrCreateUser_effects:
  "(noMembership d email (o_id og) \<and> find (\<lambda>x. u_email x = email) (users tx) = None \<longrightarrow>
      (\<exists>n m tx'. findOrCreateUser env (firstName, lastName, email) og d tx = (n, tx')
          \<and> u_email n = email \<and> users tx' = users tx @ [n]
          \<and> organizations tx' = organizations tx
          \<and> organizationUsers tx' = organizationUsers tx @ [m]
          \<and> ou_userId m = u_id n \<and> ou_organizationId m = o_id og
          \<and> ou_status m = ''invited''))
   \<and> (noMembership d email (o_id og) \<and> find (\<lambda>x. u_email x = email) (users tx) = Some u
        \<and> \<not> list_ex (\<lambda>m. ou_userId m = u_id u \<and> ou_organizationId m = o_id og)
               (organizationUsers tx) \<longrightarrow>
      (\<exists>m tx'. findOrCreateUser env (firstName, lastName, email) og d tx = (u, tx')
          \<and> users tx' = users tx \<and> organizations tx' = organizations tx
          \<and> organizationUsers tx' = organizationUsers tx @ [m]
          \<and> ou_userId m = u_id u \<and> ou_organizationId m = o_id og
          \<and> ou_status m = ''invited''))
   \<and> (usersService_findByEmail email (o_id og) (Some [''active'', ''invited'']) d
         = Some (u, ou # ous) \<and> ou_status ou \<noteq> ''active'' \<longrightarrow>
        ou \<in> set (organizationUsers d) \<and> ou_status ou = ''invited''
        \<and> (\<exists>tx'. findOrCreateUser env (firstName, lastName, email) og d tx = (u, tx')
              \<and> users tx' = users tx \<and> organizations tx' = organizations tx
              \<and> organizationUsers tx' =
                  map (\<lambda>m. if ou_id m = ou_id ou then m\<lparr>ou_status := ''active''\<rparr> else m)
                    (organizationUsers tx)))
   \<and> (usersService_findByEmail email (o_id og) (Some [''active'', ''invited'']) d
         = Some (u, ou # ous) \<and> ou_status ou = ''active'' \<longrightarrow>
        findOrCreateUser env (firstName, lastName, email) og d tx = (u, tx))"
proof -
  have none: "noMembership d email (o_id og) \<Longrightarrow>
      findOrCreateUser env (firstName, lastName, email) og d tx =
        (case usersService_findOrCreateByEmail env (firstName, lastName, email) (o_id og) tx of
           (n, newUserCreated, tx') \<Rightarrow>
             if newUserCreated then (n, organizationUsersService_create env n og False tx')
             else (n, tx'))"
    using findByEmail_noMembership [of d email "o_id og"]
    by (auto simp: findOrCreateUser_def split: option.splits list.splits)
  have a: "noMembership d email (o_id og) \<and> find (\<lambda>x. u_email x = email) (users tx) = None \<longrightarrow>
      (\<exists>n m tx'. findOrCreateUser env (firstName, lastName, email) og d tx = (n, tx')
          \<and> u_email n = email \<and> users tx' = users tx @ [n]
          \<and> organizations tx' = organizations tx
          \<and> organizationUsers tx' = organizationUsers tx @ [m]
          \<and> ou_userId m = u_id n \<and> ou_organizationId m = o_id og
          \<and> ou_status m = ''invited'')"
    by (auto simp: none usersService_findOrCreateByEmail_def usersService_create_def
          organizationUsersService_create_def Let_def)
  have b: "noMembership d email (o_id og) \<and> find (\<lambda>x. u_email x = email) (users tx) = Some u
        \<and> \<not> list_ex (\<lambda>m. ou_userId m = u_id u \<and> ou_organizationId m = o_id og)
               (organizationUsers tx) \<longrightarrow>
      (\<exists>m tx'. findOrCreateUser env (firstName, lastName, email) og d tx = (u, tx')
          \<and> users tx' = users tx \<and> organizations tx' = organizations tx
          \<and> organizationUsers tx' = organizationUsers tx @ [m]
          \<and> ou_userId m = u_id u \<and> ou_organizationId m = o_id og
          \<and> ou_status m = ''invited'')"
    by (auto simp: none usersService_findOrCreateByEmail_def
          organizationUsersService_create_def)
  have c: "usersService_findByEmail email (o_id og) (Some [''active'', ''invited'']) d
         = Some (u, ou # ous) \<and> ou_status ou \<noteq> ''active'' \<longrightarrow>
        ou \<in> set (organizationUsers d) \<and> ou_status ou = ''invited''
        \<and> (\<exists>tx'. findOrCreateUser env (firstName, lastName, email) og d tx = (u, tx')
              \<and> users tx' = users tx \<and> organizations tx' = organizations tx
              \<and> organizationUsers tx' =
                  map (\<lambda>m. if ou_id m = ou_id ou then m\<lparr>ou_status := ''active''\<rparr> else m)
                    (organizationUsers tx))"
  proof (intro impI, elim conjE)
    assume l: "usersService_findByEmail email (o_id og) (Some [''active'', ''invited'']) d
         = Some (u, ou # ous)" and s: "ou_status ou \<noteq> ''active''"
    from findByEmail_scoped_Some [OF l] s
    have "ou \<in> set (organizationUsers d)" "ou_status ou = ''invited''" by auto
    moreover have "findOrCreateUser env (firstName, lastName, email) og d tx
                     = (u, organizationUsersService_activate (Some (ou_id ou)) tx)"
      using l s by (simp add: findOrCreateUser_def)
    ultimately show "ou \<in> set (organizationUsers d) \<and> ou_status ou = ''invited''
        \<and> (\<exists>tx'. findOrCreateUser env (firstName, lastName, email) og d tx = (u, tx')
              \<and> users tx' = users tx \<and> organizations tx' = organizations tx
              \<and> organizationUsers tx' =
                  map (\<lambda>m. if ou_id m = ou_id ou then m\<lparr>ou_status := ''active''\<rparr> else m)
                    (organizationUsers tx))"
      by (simp add: organizationUsersService_activate_def)
  qed
  have e: "usersService_findByEmail email (o_id og) (Some [''active'', ''invited'']) d
         = Some (u, ou # ous) \<and> ou_status ou = ''active'' \<longrightarrow>
        findOrCreateUser env (firstName, lastName, email) og d tx = (u, tx)"
    by (simp add: findOrCreateUser_def)
  from a b c e show ?thesis by blast
qed

theorem findOrCreateUser_effects_witness:
  "(\<exists>n m tx'. findOrCreateUser sampleEnv (None, None, ''dave@acme.com'') orgB sampleStore
                 sampleStore = (n, tx')
       \<and> u_email n = ''dave@acme.com'' \<and> users tx' = users sampleStore @ [n]
       \<and> organizationUsers tx' = organizationUsers sampleStore @ [m]
       \<and> ou_userId m = u_id n \<and> ou_organizationId m = Some ''org-b''
       \<and> ou_status m = ''invited'')
   \<and> (\<exists>m tx'. findOrCreateUser sampleEnv (None, None, ''frank@acme.com'') orgB sampleStore
                 sampleStore = (frank, tx')
       \<and> users tx' = users sampleStore
       \<and> organizationUsers tx' = organizationUsers sampleStore @ [m]
       \<and> ou_userId m = ''u-frank'' \<and> ou_organizationId m = Some ''org-b''
       \<and> ou_status m = ''invited'')
   \<and> (\<exists>tx'. findOrCreateUser sampleEnv (None, None, ''carol@acme.com'') orgB sampleStore
                sampleStore = (carol, tx')
         \<and> organizationUsers tx' = [carolInAcme, carolInBeta\<lparr>ou_status := ''active''\<rparr>, frankInAcme])
   \<and> findOrCreateUser sampleEnv (None, None, ''carol@acme.com'') orgA sampleStore sampleStore
       = (carol, sampleStore)"
proof -
  note t = findOrCreateUser_effects [where env = sampleEnv and d = sampleStore
             and tx = sampleStore and firstName = None and lastName = None]
  have nd: "noMembership sampleStore ''dave@acme.com'' (o_id orgB)" by code_simp
  have fd: "find (\<lambda>x. u_email x = ''dave@acme.com'') (users sampleStore) = None" by code_simp
  have nf: "noMembership sampleStore ''frank@acme.com'' (o_id orgB)" by code_simp
  have ff: "find (\<lambda>x. u_email x = ''frank@acme.com'') (users sampleStore) = Some frank"
    by code_simp
  have lf: "\<not> list_ex (\<lambda>m. ou_userId m = u_id frank \<and> ou_organizationId m = o_id orgB)
               (organizationUsers sampleStore)"
    by code_simp
  have lb: "usersService_findByEmail ''carol@acme.com'' (o_id orgB)
              (Some [''active'', ''invited'']) sampleStore = Some (carol, [carolInBeta])"
    by code_simp
  have la: "usersService_findByEmail ''carol@acme.com'' (o_id orgA)
              (Some [''active'', ''invited'']) sampleStore = Some (carol, [carolInAcme])"
    by code_simp
  have sb: "ou_status carolInBeta \<noteq> ''active''" by (simp add: carolInBeta_def)
  have sa: "ou_status carolInAcme = ''active''" by (simp add: carolInAcme_def)
  have ob: "o_id orgB = Some ''org-b''" by (simp add: orgB_def)
  have uf: "u_id frank = ''u-frank''" by (simp add: frank_def)
  have mp: "map (\<lambda>m. if ou_id m = ou_id carolInBeta then m\<lparr>ou_status := ''active''\<rparr> else m)
              (organizationUsers sampleStore)
            = [carolInAcme, carolInBeta\<lparr>ou_status := ''active''\<rparr>, frankInAcme]"
    by code_simp
  have a: "\<exists>n m tx'. findOrCreateUser sampleEnv (None, None, ''dave@acme.com'') orgB sampleStore
                 sampleStore = (n, tx')
       \<and> u_email n = ''dave@acme.com'' \<and> users tx' = users sampleStore @ [n]
       \<and> organizationUsers tx' = organizationUsers sampleStore @ [m]
       \<and> ou_userId m = u_id n \<and> ou_organizationId m = Some ''org-b''
       \<and> ou_status m = ''invited''"
    using t [where email = "''dave@acme.com''" and og = orgB and u = frank
               and ou = carolInBeta and ous = "[]"] nd fd ob
    by auto
  have b: "\<exists>m tx'. findOrCreateUser sampleEnv (None, None, ''frank@acme.com'') orgB sampleStore
                 sampleStore = (frank, tx')
       \<and> users tx' = users sampleStore
       \<and> organizationUsers tx' = organizationUsers sampleStore @ [m]
       \<and> ou_userId m = ''u-frank'' \<and> ou_organizationId m = Some ''org-b''
       \<and> ou_status m = ''invited''"
    using t [where email = "''frank@acme.com''" and og = orgB and u = frank
               and ou = carolInBeta and ous = "[]"] nf ff lf ob uf
    by auto
  have c: "\<exists>tx'. findOrCreateUser sampleEnv (None, None, ''carol@acme.com'') orgB sampleStore
                sampleStore = (carol, tx')
         \<and> organizationUsers tx' = [carolInAcme, carolInBeta\<lparr>ou_status := ''active''\<rparr>, frankInAcme]"
    using t [where email = "''carol@acme.com''" and og = orgB and u = carol
               and ou = carolInBeta and ous = "[]"] lb sb mp
    by auto
  have e: "findOrCreateUser sampleEnv (None, None, ''carol@acme.com'') orgA sampleStore
             sampleStore = (carol, sampleStore)"
    using t [where email = "''carol@acme.com''" and og = orgA and u = carol
               and ou = carolInAcme and ous = "[]"] la sa
    by blast
  from a b c e show ?thesis by blast
qed

subsection \<open>Common login page, pending invitation\<close>

text \<open>
  C4, as the code has it. A successful sign-in from the common login page by an existing
  user with an invitation token: the token of that user is cleared and no other user
  row changes; the session is for that user; its organization is the user's default
  organization if that is among the candidates, else the first candidate, else a new
  Untitled workspace.
\<close>

theorem signIn_commonPage_invitation:
  assumes "signIn_resolve env (sr_organizationId ssoResponse) configId ssoType
             (isSingleOrganization env) d = Inr (og, conf)"
      and "signIn_exchange env conf (sr_token ssoResponse) configId cookies = Inr userResponse"
      and "signIn_eligibility env og userResponse d = Inr (ur, email, Some u, apw)"
      and "\<not> isSingleOrganization env" and "isInstanceSSOLogin configId ssoType"
      and "\<not> truthy (sr_organizationId ssoResponse)"
      and "truthy (u_invitationToken u)"
      and "signIn env ssoResponse configId ssoType cookies d = (Inr r, d')"
  shows "users d' = map (\<lambda>x. if u_id x = u_id u then x\<lparr>u_invitationToken := None\<rparr> else x) (users d)
         \<and> lr_id r = u_id u
         \<and> (\<exists>l. signIn_organizationList env d u d = Inr l
              \<and> (case preferredOrganization u l of
                    Some sel \<Rightarrow> organization_id r = o_id sel \<and> organizations d' = organizations d
                  | None \<Rightarrow>
                      (\<exists>new. organizations d' = organizations d @ [new]
                         \<and> o_name new = Some ''Untitled workspace''
                         \<and> organization_id r = o_id new)))"
proof -
  let ?tx1 = "organizationUsersService_activate (u_defaultOrganizationId u)
                (usersService_updateUser (u_id u) (\<lambda>r. r\<lparr>u_invitationToken := None\<rparr>) d)"
  have u1: "users ?tx1 = map (\<lambda>x. if u_id x = u_id u then x\<lparr>u_invitationToken := None\<rparr> else x) (users d)"
    and o1: "organizations ?tx1 = organizations d"
    by (simp_all add: organizationUsersService_activate_def usersService_updateUser_def)
  have ol: "signIn_organizationList env d u ?tx1 = signIn_organizationList env d u d"
    by (rule organizationList_organizations) (rule o1)
  have p: "signIn_provision env d (isSingleOrganization env) (isInstanceSSOLogin configId ssoType)
             (sr_organizationId ssoResponse) og apw ur email (Some u) d =
           (case signIn_selectOrganization env d apw u ?tx1 of
              Inl e \<Rightarrow> Inl e
            | Inr (sel, tx2) \<Rightarrow> Inr ((u, sel), tx2))"
    using assms(4-7) by (simp add: signIn_provision_def signIn_commonPage_def)
  from assms(8) obtain sel where
    s: "signIn_selectOrganization env d apw u ?tx1 = Inr (sel, d')"
    and res: "r = generateLoginResultPayload env d' u sel (isInstanceSSOLogin configId ssoType)"
    by (auto simp: signIn_stages [OF assms(1-3)] dbTransactionWrap_def signIn_transaction_def p
          split: sum.splits option.splits prod.splits)
  from s obtain l where l: "signIn_organizationList env d u d = Inr l"
    by (auto simp: signIn_selectOrganization_def ol split: sum.splits)
  have sel: "case preferredOrganization u l of
               Some sel' \<Rightarrow> sel = sel' \<and> d' = ?tx1
             | None \<Rightarrow> (sel, d') = organizationService_create env ''Untitled workspace'' (Some u) ?tx1"
    using s l
    by (auto simp: signIn_selectOrganization_def ol preferredOrganization_def
          split: option.splits list.splits if_splits)
  have users: "users d' = users ?tx1"
    using sel by (auto simp: organizationService_create_def Let_def split: option.splits)
  have "case preferredOrganization u l of
          Some sel' \<Rightarrow> organization_id r = o_id sel' \<and> organizations d' = organizations d
        | None \<Rightarrow>
            (\<exists>new. organizations d' = organizations d @ [new]
               \<and> o_name new = Some ''Untitled workspace''
               \<and> organization_id r = o_id new)"
    using sel o1
    by (auto simp: res generateLoginResultPayload_def organizationService_create_def Let_def
          split: option.splits)
  with l users u1 show ?thesis
    by (auto simp: res generateLoginResultPayload_def Let_def)
qed

theorem signIn_commonPage_invitation_witness:
  "truthy (u_invitationToken carol)
   \<and> signIn_organizationList sampleEnv sampleStore carol sampleStore = Inr [orgA]
   \<and> preferredOrganization carol [orgA] = Some orgA
   \<and> signIn sampleEnv (viaConfig ''carol@acme.com'') None (Some ''google'') None sampleStore
       = (Inr (generateLoginResultPayload sampleEnv
                 (usersService_updateUser ''u-carol'' (\<lambda>r. r\<lparr>u_invitationToken := None\<rparr>)
                    sampleStore) carol orgA True),
          usersService_updateUser ''u-carol'' (\<lambda>r. r\<lparr>u_invitationToken := None\<rparr>) sampleStore)
   \<and> users (usersService_updateUser ''u-carol'' (\<lambda>r. r\<lparr>u_invitationToken := None\<rparr>) sampleStore)
       = [root, carol\<lparr>u_invitationToken := None\<rparr>, erin, frank]
   \<and> organization_id (generateLoginResultPayload sampleEnv
                 (usersService_updateUser ''u-carol'' (\<lambda>r. r\<lparr>u_invitationToken := None\<rparr>)
                    sampleStore) carol orgA True) = o_id orgA"
proof -
  let ?d' = "usersService_updateUser ''u-carol'' (\<lambda>r. r\<lparr>u_invitationToken := None\<rparr>) sampleStore"
  have i: "isInstanceSSOLogin None (Some ''google'')"
    by (simp add: isInstanceSSOLogin_def truthy_def)
  have r: "signIn_resolve sampleEnv (sr_organizationId (viaConfig ''carol@acme.com''))
             None (Some ''google'') (isSingleOrganization sampleEnv) sampleStore
           = Inr (snd (getInstanceSSOConfigs sampleEnv (Some ''google'')),
                  fst (getInstanceSSOConfigs sampleEnv (Some ''google'')))"
    by (simp add: sample_flags sample_resolve_common)
  have x: "signIn_exchange sampleEnv (fst (getInstanceSSOConfigs sampleEnv (Some ''google'')))
             (sr_token (viaConfig ''carol@acme.com'')) None None
           = Inr (Some (identityOf ''carol@acme.com''))"
    by (simp add: sample_flags sample_exchange)
  have e: "signIn_eligibility sampleEnv (snd (getInstanceSSOConfigs sampleEnv (Some ''google'')))
             (Some (identityOf ''carol@acme.com'')) sampleStore
           = Inr ((identityOf ''carol@acme.com'')\<lparr>ur_firstName := Some ''carol''\<rparr>,
                  ''carol@acme.com'', Some carol, True)"
    by code_simp
  have m: "\<not> isSingleOrganization sampleEnv" by (simp add: sample_flags)
  have o: "\<not> truthy (sr_organizationId (viaConfig ''carol@acme.com''))"
    by (simp add: sample_flags truthy_def)
  have t: "truthy (u_invitationToken carol)" by (simp add: carol_def truthy_def)
  have s: "signIn sampleEnv (viaConfig ''carol@acme.com'') None (Some ''google'') None sampleStore
             = (Inr (generateLoginResultPayload sampleEnv ?d' carol orgA True), ?d')"
    by code_simp
  have l: "signIn_organizationList sampleEnv sampleStore carol sampleStore = Inr [orgA]"
    by code_simp
  have pr: "preferredOrganization carol [orgA] = Some orgA" by code_simp
  have us: "map (\<lambda>x. if u_id x = u_id carol then x\<lparr>u_invitationToken := None\<rparr> else x)
              (users sampleStore) = [root, carol\<lparr>u_invitationToken := None\<rparr>, erin, frank]"
    by code_simp
  show ?thesis
    using signIn_commonPage_invitation [OF r x e m i o t s] t s l pr us by simp
qed

text \<open>
  Against C4 as stated: the invited user's default organization is not among the
  candidates, and the session is issued for another organization. Line 292 passes the
  id of the default organization where the helpers pass the id of a membership, and the
  invited membership is still invited after the call.
\<close>

theorem signIn_invitation_other_organization:
  "u_invitationToken carol = Some ''tok-1''
   \<and> u_defaultOrganizationId carol = Some ''org-b''
   \<and> map_sum id (\<lambda>r. (lr_id r, organization_id r))
       (fst (signIn sampleEnv (viaConfig ''carol@acme.com'') None (Some ''google'') None
               sampleStore))
       = Inr (''u-carol'', Some ''org-a'')
   \<and> organizationUsers
       (snd (signIn sampleEnv (viaConfig ''carol@acme.com'') None (Some ''google'') None
               sampleStore))
       = [carolInAcme, carolInBeta, frankInAcme]
   \<and> ou_status carolInBeta = ''invited''"
  by code_simp

end
